theory Spec2Isabelle
  imports Complex_Main "HOL-Library.Sublist"
begin

section \<open>Python values, exceptions and the primitives the two scripts use\<close>

text \<open>
  The Lambda event, the keyword arguments of every boto3 call and every boto3 response are
  JSON-like Python values. A dictionary is an association list (lookup takes the first
  binding of a key); a string is a \<^typ>\<open>string\<close>, read as the UTF-8 bytes of the Python
  \<open>str\<close>. The three string tests of the scripts (\<open>startswith("raw/")\<close>,
  \<open>lower().endswith(".json")\<close>, \<open>replace\<close> of an ASCII-delimited pattern) give the same
  answer on the bytes as on the code points: no non-ASCII code point lowers to one of the
  characters of \<open>.json\<close>, and every byte of a non-ASCII code point is above 127.
\<close>

datatype jv =
    JNone
  | JBool bool
  | JInt int
  | JFloat rat
  | JStr string
  | JList "jv list"
  | JDict "(string \<times> jv) list"

text \<open>
  Exceptions. \<open>ClientError\<close> stands for botocore's \<open>ClientError\<close> and its subclasses and
  carries \<open>str(e)\<close>; \<open>OtherError\<close> is any other \<open>Exception\<close> a library call raises (class
  name, \<open>str(e)\<close>): \<open>WaiterError\<close>, \<open>URLError\<close>, a socket timeout, and so on. All of them
  are subclasses of \<open>Exception\<close>.
\<close>

datatype exn =
    RuntimeError string
  | TimeoutError string
  | KeyError jv
  | IndexError
  | TypeError
  | AttributeError
  | ClientError string
  | OtherError string string

text \<open>\<open>v[k]\<close> with a string key: only a dictionary can be subscripted by a string.\<close>

fun getitem :: "jv \<Rightarrow> string \<Rightarrow> exn + jv" where
  "getitem (JDict kvs) k = (case map_of kvs k of None \<Rightarrow> Inl (KeyError (JStr k)) | Some v \<Rightarrow> Inr v)"
| "getitem _ k = Inl TypeError"

text \<open>
  \<open>v[i]\<close> with a non-negative integer index. (A character of a string is returned as the
  one-byte string at that position; the scripts only ever subscript the result again.)
\<close>

fun getindex :: "jv \<Rightarrow> nat \<Rightarrow> exn + jv" where
  "getindex (JList xs) i = (if i < length xs then Inr (xs ! i) else Inl IndexError)"
| "getindex (JStr s) i = (if i < length s then Inr (JStr [s ! i]) else Inl IndexError)"
| "getindex (JDict kvs) i = Inl (KeyError (JInt (int i)))"
| "getindex _ i = Inl TypeError"

text \<open>A chain of subscripts \<open>v[a][b]...\<close>, evaluated left to right; the first failure is raised.\<close>

datatype sub = Key string | Idx nat

fun py_path :: "jv \<Rightarrow> sub list \<Rightarrow> exn + jv" where
  "py_path v [] = Inr v"
| "py_path v (Key k # ps) = (case getitem v k of Inl e \<Rightarrow> Inl e | Inr u \<Rightarrow> py_path u ps)"
| "py_path v (Idx i # ps) = (case getindex v i of Inl e \<Rightarrow> Inl e | Inr u \<Rightarrow> py_path u ps)"

text \<open>\<open>v.get(k, d)\<close>: only a dictionary has the method.\<close>

fun dict_get :: "jv \<Rightarrow> string \<Rightarrow> jv \<Rightarrow> exn + jv" where
  "dict_get (JDict kvs) k d = Inr (case map_of kvs k of None \<Rightarrow> d | Some v \<Rightarrow> v)"
| "dict_get _ k d = Inl AttributeError"

text \<open>
  The items a \<open>for\<close> loop draws from a value: the elements of a list, the keys of a
  dictionary, the characters of a string; anything else is not iterable.
\<close>

fun py_iter :: "jv \<Rightarrow> exn + jv list" where
  "py_iter (JList xs) = Inr xs"
| "py_iter (JDict kvs) = Inr (map JStr (remdups (map fst kvs)))"
| "py_iter (JStr s) = Inr (map (\<lambda>c. JStr [c]) s)"
| "py_iter _ = Inl TypeError"

definition lower_char :: "char \<Rightarrow> char" where
  "lower_char c =
     (case map_of (zip ''ABCDEFGHIJKLMNOPQRSTUVWXYZ'' ''abcdefghijklmnopqrstuvwxyz'') c of
        None \<Rightarrow> c | Some d \<Rightarrow> d)"

text \<open>\<open>key.startswith(p)\<close> and \<open>key.lower().endswith(p)\<close>: string methods, absent elsewhere.\<close>

fun str_startswith :: "jv \<Rightarrow> string \<Rightarrow> exn + bool" where
  "str_startswith (JStr s) p = Inr (prefix p s)"
| "str_startswith _ p = Inl AttributeError"

fun str_lower_endswith :: "jv \<Rightarrow> string \<Rightarrow> exn + bool" where
  "str_lower_endswith (JStr s) p = Inr (suffix p (map lower_char s))"
| "str_lower_endswith _ p = Inl AttributeError"

section \<open>The upload trigger: \<open>start_ec2_on_upload.py\<close>\<close>

subsection \<open>\<open>_should_process\<close>\<close>

text \<open>
  The body of the \<open>for\<close> loop for one record: \<open>Inr True\<close> is the \<open>return True\<close>,
  \<open>Inr False\<close> falls through to the next record, \<open>Inl e\<close> is an exception raised while
  the record is inspected. \<open>and\<close> evaluates its right operand only when the left is true.
\<close>

definition record_check :: "jv \<Rightarrow> exn + bool" where
  "record_check rec =
     (case dict_get rec ''eventSource'' JNone of
        Inl e \<Rightarrow> Inl e
      | Inr src \<Rightarrow>
          if src = JStr ''aws:s3'' then
            (case py_path rec [Key ''s3'', Key ''object'', Key ''key''] of
               Inl e \<Rightarrow> Inl e
             | Inr key \<Rightarrow>
                 (case str_startswith key ''raw/'' of
                    Inl e \<Rightarrow> Inl e
                  | Inr p \<Rightarrow> if p then str_lower_endswith key ''.json'' else Inr False))
          else Inr False)"

text \<open>The \<open>for\<close> loop over the records: it stops at the first hit and at the first exception.\<close>

fun scan_records :: "jv list \<Rightarrow> exn + bool" where
  "scan_records [] = Inr False"
| "scan_records (rec # recs) =
     (case record_check rec of
        Inl e \<Rightarrow> Inl e
      | Inr hit \<Rightarrow> if hit then Inr True else scan_records recs)"

text \<open>The body of the \<open>try\<close>: the lookup of \<open>Records\<close> and the loop over what it yields.\<close>

definition should_process_try :: "jv \<Rightarrow> exn + bool" where
  "should_process_try event =
     (case dict_get event ''Records'' (JList []) of
        Inl e \<Rightarrow> Inl e
      | Inr rs \<Rightarrow> (case py_iter rs of Inl e \<Rightarrow> Inl e | Inr recs \<Rightarrow> scan_records recs))"

text \<open>
  \<open>_should_process\<close> (the leading underscore is not an Isabelle identifier):
  \<open>except Exception: pass\<close> catches every exception of the body, and control then reaches
  \<open>return False\<close>. The result is a sum so that "does not raise" is a statement, not a type.
\<close>

definition should_process :: "jv \<Rightarrow> exn + bool" where
  "should_process event =
     (case should_process_try event of
        Inl e \<Rightarrow> Inr False
      | Inr b \<Rightarrow> Inr b)"

subsection \<open>The services and the run state\<close>

text \<open>
  Everything outside the scripts is a parameter: a boto3 client operation takes its keyword
  arguments and the state of the world and answers with a response or an exception and the
  next state of the world. The run state also records what the script did: the requests it
  issued and the sleeps it took, in order, and the lines it printed. \<open>PrintExn p e\<close> is the
  line \<open>p + str(e)\<close>.
\<close>

datatype operation =
    DescribeInstances
  | StartInstances
  | WaitInstanceStatusOk
  | TerminateInstances
  | StartQueryExecution
  | GetQueryExecution
  | CopyObject

datatype call = Api operation jv | UrlOpen string nat | Sleep nat

datatype out_line = Print string | PrintExn string exn

record datetime =
  year :: nat
  month :: nat
  day :: nat
  hour :: nat
  minute :: nat
  second :: nat

record 'w env =
  api :: "operation \<Rightarrow> jv \<Rightarrow> 'w \<Rightarrow> (exn + jv) \<times> 'w"
  urlopen_text :: "string \<Rightarrow> nat \<Rightarrow> 'w \<Rightarrow> (exn + string) \<times> 'w"
  time_time :: "'w \<Rightarrow> real \<times> 'w"
  time_sleep :: "nat \<Rightarrow> 'w \<Rightarrow> 'w"
  utcnow :: "'w \<Rightarrow> datetime \<times> 'w"
  str_of :: "jv \<Rightarrow> string"

record 'w run =
  world :: 'w
  calls :: "call list"
  out :: "out_line list"

definition call_api :: "'w env \<Rightarrow> operation \<Rightarrow> jv \<Rightarrow> 'w run \<Rightarrow> (exn + jv) \<times> 'w run" where
  "call_api E opn args s =
     (case api E opn args (world s) of
        (r, w) \<Rightarrow> (r, s\<lparr>world := w, calls := calls s @ [Api opn args]\<rparr>))"

definition print_line :: "out_line \<Rightarrow> 'w run \<Rightarrow> 'w run" where
  "print_line l s = s\<lparr>out := out s @ [l]\<rparr>"

subsection \<open>\<open>lambda_handler\<close>\<close>

definition instance_ids :: "string \<Rightarrow> jv" where
  "instance_ids iid = JDict [(''InstanceIds'', JList [JStr iid])]"

definition wait_args :: "string \<Rightarrow> jv" where
  "wait_args iid =
     JDict [(''InstanceIds'', JList [JStr iid]),
            (''WaiterConfig'', JDict [(''Delay'', JInt 10), (''MaxAttempts'', JInt 30)])]"

definition state_path :: "sub list" where
  "state_path = [Key ''Reservations'', Idx 0, Key ''Instances'', Idx 0, Key ''State'', Key ''Name'']"

text \<open>The conditional start request: \<open>if state in ("stopped", "stopping"): ec2.start_instances(...)\<close>.\<close>

definition start_if_stopped :: "'w env \<Rightarrow> string \<Rightarrow> jv \<Rightarrow> 'w run \<Rightarrow> (exn + jv) \<times> 'w run" where
  "start_if_stopped E iid state s =
     (if state \<in> set [JStr ''stopped'', JStr ''stopping'']
      then call_api E StartInstances (instance_ids iid) s
      else (Inr JNone, s))"

text \<open>The body of the handler's \<open>try\<close>. The waiter is botocore's; it is one blocking call.\<close>

definition handler_try :: "'w env \<Rightarrow> string \<Rightarrow> 'w run \<Rightarrow> (exn + jv) \<times> 'w run" where
  "handler_try E iid s =
     (case call_api E DescribeInstances (instance_ids iid) s of
        (Inl e, s1) \<Rightarrow> (Inl e, s1)
      | (Inr desc, s1) \<Rightarrow>
          (case py_path desc state_path of
             Inl e \<Rightarrow> (Inl e, s1)
           | Inr state \<Rightarrow>
               (case start_if_stopped E iid state s1 of
                  (Inl e, s2) \<Rightarrow> (Inl e, s2)
                | (Inr started, s2) \<Rightarrow>
                    (case call_api E WaitInstanceStatusOk (wait_args iid) s2 of
                       (Inl e, s3) \<Rightarrow> (Inl e, s3)
                     | (Inr waited, s3) \<Rightarrow>
                         (Inr (JDict [(''ok'', JBool True), (''instance'', JStr iid)]), s3)))))"

text \<open>\<open>except ClientError as e: print(f"EC2 error: {e}"); raise\<close>; any other exception passes.\<close>

definition log_client_error :: "(exn + jv) \<times> 'w run \<Rightarrow> (exn + jv) \<times> 'w run" where
  "log_client_error rs =
     (case rs of
        (Inl (ClientError m), s) \<Rightarrow> (Inl (ClientError m), print_line (Print (''EC2 error: '' @ m)) s)
      | _ \<Rightarrow> rs)"

text \<open>
  \<open>INSTANCE_ID\<close> is \<open>os.getenv("INSTANCE_ID")\<close>: absent or a string; \<open>not INSTANCE_ID\<close>
  holds when it is absent or empty. The unused \<open>context\<close> argument is left out.
\<close>

definition skipped :: jv where
  "skipped = JDict [(''ok'', JBool True), (''skipped'', JBool True)]"

definition lambda_handler :: "'w env \<Rightarrow> string option \<Rightarrow> jv \<Rightarrow> 'w run \<Rightarrow> (exn + jv) \<times> 'w run" where
  "lambda_handler E INSTANCE_ID event s =
     (case INSTANCE_ID of
        None \<Rightarrow> (Inl (RuntimeError ''Missing env var INSTANCE_ID (your EC2 runner id)''), s)
      | Some iid \<Rightarrow>
          if iid = [] then (Inl (RuntimeError ''Missing env var INSTANCE_ID (your EC2 runner id)''), s)
          else
            (case should_process event of
               Inl e \<Rightarrow> (Inl e, s)
             | Inr process \<Rightarrow>
                 if \<not> process then (Inr skipped, s)
                 else log_client_error (handler_try E iid s)))"

section \<open>The pipeline runner: \<open>ec2/athena_pipeline.py\<close>\<close>

subsection \<open>Configuration\<close>

text \<open>
  The module-level settings, read from the process environment. \<open>os.getenv(k, d)\<close> falls
  back to \<open>d\<close> only when \<open>k\<close> is unset; \<open>os.getenv(k) or d\<close> also when it is empty.
\<close>

record config =
  REGION :: string
  BUCKET :: string
  RAW_PREFIX :: string
  ATHENA_OUTPUT :: string
  PROD_PREFIX :: string
  DATABASE :: string
  TABLE :: string
  WORKGROUP :: string
  CATALOG :: string

definition getenv_default :: "(string \<rightharpoonup> string) \<Rightarrow> string \<Rightarrow> string \<Rightarrow> string" where
  "getenv_default environ k d = (case environ k of None \<Rightarrow> d | Some v \<Rightarrow> v)"

definition getenv_or :: "(string \<rightharpoonup> string) \<Rightarrow> string \<Rightarrow> string \<Rightarrow> string" where
  "getenv_or environ k d = (case environ k of None \<Rightarrow> d | Some v \<Rightarrow> if v = [] then d else v)"

definition load_config :: "(string \<rightharpoonup> string) \<Rightarrow> config" where
  "load_config environ =
     \<lparr> REGION = getenv_default environ ''REGION'' ''us-east-1'',
       BUCKET = getenv_or environ ''BUCKET'' ''YOUR_S3_BUCKET'',
       RAW_PREFIX = getenv_default environ ''RAW_PREFIX'' ''raw/'',
       ATHENA_OUTPUT =
         getenv_or environ ''ATHENA_OUTPUT''
           (''s3://'' @ getenv_or environ ''BUCKET'' ''YOUR_S3_BUCKET'' @ ''/athena-results/''),
       PROD_PREFIX = getenv_default environ ''PROD_PREFIX'' ''output/prod/'',
       DATABASE = getenv_default environ ''DATABASE'' ''healthcare_db'',
       TABLE = getenv_default environ ''TABLE'' ''facility_data'',
       WORKGROUP = getenv_default environ ''WORKGROUP'' ''primary'',
       CATALOG = getenv_default environ ''CATALOG'' ''AwsDataCatalog'' \<rparr>"

subsection \<open>The SQL texts\<close>

definition text_lines :: "string list \<Rightarrow> string" where
  "text_lines ls = CHR 0x0A # concat (map (\<lambda>l. l @ [CHR 0x0A]) ls)"

definition CREATE_DB_SQL :: "config \<Rightarrow> string" where
  "CREATE_DB_SQL cfg = ''CREATE DATABASE IF NOT EXISTS '' @ DATABASE cfg @ '';''"

definition CREATE_TABLE_SQL :: "config \<Rightarrow> string" where
  "CREATE_TABLE_SQL cfg = text_lines
     [''CREATE EXTERNAL TABLE IF NOT EXISTS '' @ DATABASE cfg @ ''.'' @ TABLE cfg @ '' ('',
      ''  facility_id string,'',
      ''  facility_name string,'',
      ''  location struct<'',
      ''    address:string,'',
      ''    city:string,'',
      ''    state:string,'',
      ''    zip:string>,'',
      ''  employee_count int,'',
      ''  services array<string>,'',
      ''  labs array<struct<lab_name:string, certifications:array<string>>>,'',
      ''  accreditations array<struct<accreditation_body:string, accreditation_id:string, valid_until:string>>'',
      '')'',
      ''ROW FORMAT SERDE 'org.openx.data.jsonserde.JsonSerDe'' @ [CHR 0x27],
      ''WITH SERDEPROPERTIES ('ignore.malformed.json'='true')'',
      ''LOCATION 's3://'' @ BUCKET cfg @ ''/'' @ RAW_PREFIX cfg @ [CHR 0x27],
      ''TBLPROPERTIES ('has_encrypted_data'='false');'']"

definition STAGE3_SQL :: "config \<Rightarrow> string" where
  "STAGE3_SQL cfg = text_lines
     [''SELECT'',
      ''  location.state AS state,'',
      ''  COUNT(1)        AS facilities'',
      ''FROM '' @ DATABASE cfg @ ''.'' @ TABLE cfg,
      ''GROUP BY location.state'',
      ''ORDER BY facilities DESC;'']"

subsection \<open>Clock, sleep, formatting\<close>

definition read_clock :: "'w env \<Rightarrow> 'w run \<Rightarrow> real \<times> 'w run" where
  "read_clock E s = (case time_time E (world s) of (t, w) \<Rightarrow> (t, s\<lparr>world := w\<rparr>))"

definition do_sleep :: "'w env \<Rightarrow> nat \<Rightarrow> 'w run \<Rightarrow> 'w run" where
  "do_sleep E n s = s\<lparr>world := time_sleep E n (world s), calls := calls s @ [Sleep n]\<rparr>"

definition read_utcnow :: "'w env \<Rightarrow> 'w run \<Rightarrow> datetime \<times> 'w run" where
  "read_utcnow E s = (case utcnow E (world s) of (d, w) \<Rightarrow> (d, s\<lparr>world := w\<rparr>))"

text \<open>
  A value inside an f-string: a string is inserted as it is; the text of any other value is
  Python's \<open>str()\<close> of it, which is left to the environment.
\<close>

definition py_str :: "'w env \<Rightarrow> jv \<Rightarrow> string" where
  "py_str E v = (case v of JStr s \<Rightarrow> s | _ \<Rightarrow> str_of E v)"

text \<open>
  \<open>strftime("%Y%m%d_%H%M%S")\<close>: the year in four digits, every other field in two. These
  are the decimal digits of the field for the values a \<open>datetime\<close> from the system clock has
  (years 1000 to 9999, months 1 to 12, and so on).
\<close>

definition digit :: "nat \<Rightarrow> char" where
  "digit n = ''0123456789'' ! n"

definition two_digits :: "nat \<Rightarrow> string" where
  "two_digits n = [digit (n div 10 mod 10), digit (n mod 10)]"

definition four_digits :: "nat \<Rightarrow> string" where
  "four_digits n =
     [digit (n div 1000 mod 10), digit (n div 100 mod 10), digit (n div 10 mod 10), digit (n mod 10)]"

definition strftime_stamp :: "datetime \<Rightarrow> string" where
  "strftime_stamp d =
     four_digits (year d) @ two_digits (month d) @ two_digits (day d) @ ''_'' @
     two_digits (hour d) @ two_digits (minute d) @ two_digits (second d)"

text \<open>
  \<open>s.replace(old, new)\<close>: every occurrence of \<open>old\<close>, found left to right without overlap,
  becomes \<open>new\<close>; an empty \<open>old\<close> matches before every character and at the end.
\<close>

function py_replace :: "string \<Rightarrow> string \<Rightarrow> string \<Rightarrow> string" where
  "py_replace old new [] = (if old = [] then new else [])"
| "py_replace old new (c # cs) =
     (if old = [] then new @ c # py_replace old new cs
      else if prefix old (c # cs) then new @ py_replace old new (drop (length old) (c # cs))
      else c # py_replace old new cs)"
  by pat_completeness auto
termination
  by (relation "measure (\<lambda>(old, new, s). length s)") auto

subsection \<open>\<open>wait_for_query\<close>\<close>

text \<open>
  One pass through the body of \<open>while True\<close>: \<open>Leave\<close> is a \<open>return\<close> or a \<open>raise\<close> with
  the state it happens in, \<open>Again\<close> is the state after \<open>time.sleep(2)\<close>, in which the next
  pass starts.
\<close>

datatype ('r, 's) iteration = Leave 'r | Again 's

definition status_reason :: "jv \<Rightarrow> exn + jv" where
  "status_reason res =
     (case py_path res [Key ''QueryExecution'', Key ''Status''] of
        Inl e \<Rightarrow> Inl e
      | Inr status \<Rightarrow> dict_get status ''StateChangeReason'' (JStr ''Unknown''))"

definition poll_args :: "jv \<Rightarrow> jv" where
  "poll_args qid = JDict [(''QueryExecutionId'', qid)]"

definition state_of_query :: "sub list" where
  "state_of_query = [Key ''QueryExecution'', Key ''Status'', Key ''State'']"

definition wait_poll ::
  "'w env \<Rightarrow> jv \<Rightarrow> int \<Rightarrow> real \<Rightarrow> 'w run \<Rightarrow> ((exn + jv) \<times> 'w run, 'w run) iteration" where
  "wait_poll E qid timeout_sec start s =
     (case call_api E GetQueryExecution (poll_args qid) s of
        (Inl e, s1) \<Rightarrow> Leave (Inl e, s1)
      | (Inr res, s1) \<Rightarrow>
          (case py_path res state_of_query of
             Inl e \<Rightarrow> Leave (Inl e, s1)
           | Inr state \<Rightarrow>
               if state \<in> set [JStr ''SUCCEEDED'', JStr ''FAILED'', JStr ''CANCELLED''] then
                 if state \<noteq> JStr ''SUCCEEDED'' then
                   (case status_reason res of
                      Inl e \<Rightarrow> Leave (Inl e, s1)
                    | Inr reason \<Rightarrow>
                        Leave (Inl (RuntimeError
                          (''Athena query '' @ py_str E qid @ '' '' @ py_str E state @ '': '' @
                           py_str E reason)), s1))
                 else Leave (Inr res, s1)
               else
                 (case read_clock E s1 of
                    (now, s2) \<Rightarrow>
                      if now - start > real_of_int timeout_sec
                      then Leave (Inl (TimeoutError (''Athena query '' @ py_str E qid @ '' timed out'')), s2)
                      else Again (do_sleep E 2 s2))))"

text \<open>The loop itself. It has no bound of its own, so a run that never leaves it is \<open>None\<close>.\<close>

partial_function (option) wait_loop ::
  "'w env \<Rightarrow> jv \<Rightarrow> int \<Rightarrow> real \<Rightarrow> 'w run \<Rightarrow> ((exn + jv) \<times> 'w run) option" where
  "wait_loop E qid timeout_sec start s =
     (case wait_poll E qid timeout_sec start s of
        Leave r \<Rightarrow> Some r
      | Again s' \<Rightarrow> wait_loop E qid timeout_sec start s')"

definition wait_for_query :: "'w env \<Rightarrow> jv \<Rightarrow> int \<Rightarrow> 'w run \<Rightarrow> ((exn + jv) \<times> 'w run) option" where
  "wait_for_query E qid timeout_sec s =
     (case read_clock E s of (start, s0) \<Rightarrow> wait_loop E qid timeout_sec start s0)"

text \<open>The default of the parameter: \<open>timeout_sec: int = 300\<close>.\<close>

definition default_timeout_sec :: int where
  "default_timeout_sec = 300"

subsection \<open>\<open>run_query\<close>, \<open>copy_athena_csv_to_prod\<close>, \<open>terminate_self\<close>, \<open>main\<close>\<close>

text \<open>
  Sequencing: the next statement runs in the state the previous one left, unless that one
  raised or never returned.
\<close>

definition and_then ::
  "((exn + 'a) \<times> 's) option \<Rightarrow> ('a \<Rightarrow> 's \<Rightarrow> ((exn + 'b) \<times> 's) option) \<Rightarrow> ((exn + 'b) \<times> 's) option" where
  "and_then m f =
     (case m of
        None \<Rightarrow> None
      | Some (Inl e, s) \<Rightarrow> Some (Inl e, s)
      | Some (Inr x, s) \<Rightarrow> f x s)"

text \<open>\<open>database\<close> is \<open>None\<close> or a string; \<open>if database:\<close> holds for a non-empty string.\<close>

definition query_kwargs :: "config \<Rightarrow> string \<Rightarrow> string option \<Rightarrow> jv" where
  "query_kwargs cfg sql database =
     JDict [(''QueryString'', JStr sql),
            (''ResultConfiguration'', JDict [(''OutputLocation'', JStr (ATHENA_OUTPUT cfg))]),
            (''WorkGroup'', JStr (WORKGROUP cfg)),
            (''QueryExecutionContext'',
               JDict ((''Catalog'', JStr (CATALOG cfg)) #
                 (case database of
                    None \<Rightarrow> []
                  | Some d \<Rightarrow> if d = [] then [] else [(''Database'', JStr d)])))]"

definition run_query ::
  "'w env \<Rightarrow> config \<Rightarrow> string \<Rightarrow> string option \<Rightarrow> 'w run \<Rightarrow> ((exn + jv) \<times> 'w run) option" where
  "run_query E cfg sql database s =
     and_then (Some (call_api E StartQueryExecution (query_kwargs cfg sql database) s)) (\<lambda>q s1.
     and_then (Some (getitem q ''QueryExecutionId'', s1)) (\<lambda>qid s2.
     and_then (wait_for_query E qid default_timeout_sec s2) (\<lambda>res s3.
     Some (Inr qid, s3))))"

definition copy_src_key :: "'w env \<Rightarrow> config \<Rightarrow> jv \<Rightarrow> string" where
  "copy_src_key E cfg qid =
     py_replace (''s3://'' @ BUCKET cfg @ ''/'') [] (''athena-results/'' @ py_str E qid @ ''.csv'')"

definition copy_kwargs :: "'w env \<Rightarrow> config \<Rightarrow> jv \<Rightarrow> string \<Rightarrow> jv" where
  "copy_kwargs E cfg qid dest_key =
     JDict [(''Bucket'', JStr (BUCKET cfg)),
            (''CopySource'', JDict [(''Bucket'', JStr (BUCKET cfg)), (''Key'', JStr (copy_src_key E cfg qid))]),
            (''Key'', JStr dest_key)]"

definition copy_athena_csv_to_prod ::
  "'w env \<Rightarrow> config \<Rightarrow> jv \<Rightarrow> string \<Rightarrow> 'w run \<Rightarrow> (exn + jv) \<times> 'w run" where
  "copy_athena_csv_to_prod E cfg qid dest_key s =
     (case call_api E CopyObject (copy_kwargs E cfg qid dest_key) s of
        (Inl e, s1) \<Rightarrow> (Inl e, s1)
      | (Inr copied, s1) \<Rightarrow> (Inr JNone, s1))"

text \<open>
  The metadata request \<open>urlopen(url, timeout=2).read().decode()\<close> is one step of the
  environment: it yields the text or the exception any of its three parts raises.
\<close>

definition metadata_url :: string where
  "metadata_url = ''http://169.254.169.254/latest/meta-data/instance-id''"

definition fetch_text :: "'w env \<Rightarrow> string \<Rightarrow> nat \<Rightarrow> 'w run \<Rightarrow> (exn + string) \<times> 'w run" where
  "fetch_text E url t s =
     (case urlopen_text E url t (world s) of
        (r, w) \<Rightarrow> (r, s\<lparr>world := w, calls := calls s @ [UrlOpen url t]\<rparr>))"

definition terminate_self_try :: "'w env \<Rightarrow> 'w run \<Rightarrow> (exn + jv) \<times> 'w run" where
  "terminate_self_try E s =
     (case fetch_text E metadata_url 2 s of
        (Inl e, s1) \<Rightarrow> (Inl e, s1)
      | (Inr iid, s1) \<Rightarrow>
          (case call_api E TerminateInstances (instance_ids iid) s1 of
             (Inl e, s2) \<Rightarrow> (Inl e, s2)
           | (Inr terminated, s2) \<Rightarrow> (Inr JNone, s2)))"

text \<open>\<open>except Exception as e: print(...)\<close>: the exception is printed and the function returns.\<close>

definition terminate_self :: "'w env \<Rightarrow> 'w run \<Rightarrow> (exn + jv) \<times> 'w run" where
  "terminate_self E s =
     (case terminate_self_try E s of
        (Inl e, s1) \<Rightarrow>
          (Inr JNone, print_line (PrintExn ''[WARN] Could not terminate instance automatically: '' e) s1)
      | (Inr done, s1) \<Rightarrow> (Inr done, s1))"

definition ellipsis :: string where
  "ellipsis = [CHR 0xE2, CHR 0x80, CHR 0xA6]"

definition bucket_error :: exn where
  "bucket_error = RuntimeError ''Set BUCKET env var (or hardcode your bucket name) before running.''"

definition dest_key_of :: "config \<Rightarrow> datetime \<Rightarrow> string" where
  "dest_key_of cfg ts = PROD_PREFIX cfg @ ''state_counts_'' @ strftime_stamp ts @ ''.csv''"

text \<open>
  \<open>main\<close>, block by block: the banner, the configuration check and the three queries (down
  to the \<open>[OK] Query ID\<close> line); the relocation of the result (the timestamp, the destination
  key, the copy and its two lines of output); the self-termination.
\<close>

definition main_queries :: "'w env \<Rightarrow> config \<Rightarrow> 'w run \<Rightarrow> ((exn + jv) \<times> 'w run) option" where
  "main_queries E cfg s =
     (let s0 = print_line (Print (''[INFO] Bucket='' @ BUCKET cfg @ '', RAW=s3://'' @ BUCKET cfg @ ''/'' @
                  RAW_PREFIX cfg @ '', Output='' @ PROD_PREFIX cfg))
                (print_line (Print (''[INFO] Starting Athena pipeline in '' @ REGION cfg)) s)
      in
      if BUCKET cfg = ''YOUR_S3_BUCKET'' then Some (Inl bucket_error, s0)
      else
        and_then (run_query E cfg (CREATE_DB_SQL cfg) None
                    (print_line (Print (''[STEP] Ensuring DB exists'' @ ellipsis)) s0)) (\<lambda>qid1 s1.
        and_then (run_query E cfg (CREATE_TABLE_SQL cfg) (Some (DATABASE cfg))
                    (print_line (Print (''[STEP] Ensuring external table exists'' @ ellipsis)) s1)) (\<lambda>qid2 s2.
        and_then (run_query E cfg (STAGE3_SQL cfg) (Some (DATABASE cfg))
                    (print_line (Print (''[STEP] Running Stage-3 query'' @ ellipsis)) s2)) (\<lambda>qid s3.
        Some (Inr qid, print_line (Print (''[OK] Query ID: '' @ py_str E qid)) s3)))))"

definition relocate_result :: "'w env \<Rightarrow> config \<Rightarrow> jv \<Rightarrow> 'w run \<Rightarrow> (exn + jv) \<times> 'w run" where
  "relocate_result E cfg qid s =
     (case read_utcnow E s of
        (ts, s1) \<Rightarrow>
          (case copy_athena_csv_to_prod E cfg qid (dest_key_of cfg ts)
                  (print_line (Print (''[STEP] Copying results to prod'' @ ellipsis)) s1) of
             (Inl e, s2) \<Rightarrow> (Inl e, s2)
           | (Inr copied, s2) \<Rightarrow>
               (Inr JNone,
                print_line (Print (''[OK] Prod CSV: s3://'' @ BUCKET cfg @ ''/'' @ dest_key_of cfg ts)) s2)))"

definition main :: "'w env \<Rightarrow> config \<Rightarrow> 'w run \<Rightarrow> ((exn + jv) \<times> 'w run) option" where
  "main E cfg s =
     and_then (main_queries E cfg s) (\<lambda>qid s1.
     and_then (Some (relocate_result E cfg qid s1)) (\<lambda>relocated s2.
     Some (terminate_self E (print_line (Print (''[STEP] Terminating instance'' @ ellipsis)) s2))))"


section \<open>Vocabulary of the properties\<close>

subsection \<open>Qualifying records, issued requests\<close>

text \<open>
  A record qualifies when it carries the storage tag \<open>aws:s3\<close> and a string key under
  \<open>s3.object.key\<close> that starts with \<open>raw/\<close> and, lowered, ends with \<open>.json\<close>. The records
  of an event are the items the loop of \<open>_should_process\<close> draws (none when
  \<open>event.get("Records", [])\<close> fails or is not iterable).
\<close>

definition qualifies :: "jv \<Rightarrow> bool" where
  "qualifies rec \<longleftrightarrow>
     dict_get rec ''eventSource'' JNone = Inr (JStr ''aws:s3'') \<and>
     (case py_path rec [Key ''s3'', Key ''object'', Key ''key''] of
        Inr (JStr key) \<Rightarrow> prefix ''raw/'' key \<and> suffix ''.json'' (map lower_char key)
      | _ \<Rightarrow> False)"

definition event_records :: "jv \<Rightarrow> jv list" where
  "event_records event =
     (case dict_get event ''Records'' (JList []) of
        Inl e \<Rightarrow> []
      | Inr rs \<Rightarrow> (case py_iter rs of Inl e \<Rightarrow> [] | Inr recs \<Rightarrow> recs))"


fun field :: "jv \<Rightarrow> string \<Rightarrow> jv option" where
  "field (JDict kvs) k = map_of kvs k"
| "field _ k = None"





definition issued :: "'w run \<Rightarrow> 'w run \<Rightarrow> call list" where
  "issued s s' = drop (length (calls s)) (calls s')"

subsection \<open>Sample events and environments\<close>

definition idle :: "'w \<Rightarrow> 'w run" where
  "idle w = \<lparr>world = w, calls = [], out = []\<rparr>"

definition describe_response :: "jv \<Rightarrow> jv" where
  "describe_response state =
     JDict [(''Reservations'', JList [JDict [(''Instances'', JList [JDict [(''State'', JDict [(''Name'', state)])]])]])]"

definition put_record :: "string \<Rightarrow> jv" where
  "put_record key =
     JDict [(''eventSource'', JStr ''aws:s3''), (''s3'', JDict [(''object'', JDict [(''key'', JStr key)])])]"

definition epoch :: datetime where
  "epoch = \<lparr>year = 1970, month = 1, day = 1, hour = 0, minute = 0, second = 0\<rparr>"

definition ec2_stub :: "jv \<Rightarrow> exn + jv \<Rightarrow> unit env" where
  "ec2_stub state waited =
     \<lparr> api = (\<lambda>opn args w.
         (case opn of
            DescribeInstances \<Rightarrow> Inr (describe_response state)
          | WaitInstanceStatusOk \<Rightarrow> waited
          | _ \<Rightarrow> Inr (JDict []), w)),
       urlopen_text = (\<lambda>url t w. (Inr ''i-0'', w)),
       time_time = (\<lambda>w. (0, w)),
       time_sleep = (\<lambda>n w. w),
       utcnow = (\<lambda>w. (epoch, w)),
       str_of = (\<lambda>v. []) \<rparr>"

text \<open>A compute service whose world is the list of the operations it has received.\<close>

definition ec2_recorder :: "jv \<Rightarrow> operation list env" where
  "ec2_recorder state =
     \<lparr> api = (\<lambda>opn args w.
         (case opn of
            DescribeInstances \<Rightarrow> Inr (describe_response state)
          | _ \<Rightarrow> Inr (JDict []), w @ [opn])),
       urlopen_text = (\<lambda>url t w. (Inr ''i-0'', w)),
       time_time = (\<lambda>w. (0, w)),
       time_sleep = (\<lambda>n w. w),
       utcnow = (\<lambda>w. (epoch, w)),
       str_of = (\<lambda>v. []) \<rparr>"

definition records_event :: "jv list \<Rightarrow> jv" where
  "records_event recs = JDict [(''Records'', JList recs)]"



subsection \<open>Passes of the polling loop, timestamps, a sample query service\<close>

text \<open>
  \<open>polls n\<close> is the state in which pass \<open>n + 1\<close> of the loop of \<open>wait_for_query\<close> starts,
  when each of the first \<open>n\<close> passes ended in the sleep.
\<close>

fun polls :: "nat \<Rightarrow> 'w env \<Rightarrow> jv \<Rightarrow> int \<Rightarrow> real \<Rightarrow> 'w run \<Rightarrow> 'w run option" where
  "polls 0 E qid timeout_sec start s = Some s"
| "polls (Suc n) E qid timeout_sec start s =
     (case wait_poll E qid timeout_sec start s of
        Leave r \<Rightarrow> None
      | Again s' \<Rightarrow> polls n E qid timeout_sec start s')"

fun is_poll :: "call \<Rightarrow> bool" where
  "is_poll (Api GetQueryExecution args) = True"
| "is_poll _ = False"

text \<open>The shape \<open>YYYYMMDD_HHMMSS\<close>: eight digits, an underscore, six digits.\<close>

definition is_digit :: "char \<Rightarrow> bool" where
  "is_digit c \<longleftrightarrow> c \<in> set ''0123456789''"

definition stamp_shape :: "string \<Rightarrow> bool" where
  "stamp_shape t \<longleftrightarrow>
     length t = 15 \<and> list_all is_digit (take 8 t) \<and> t ! 8 = CHR ''_'' \<and> list_all is_digit (drop 9 t)"

text \<open>
  A query service for the examples. The world counts the requests made so far. A status
  request answers \<open>RUNNING\<close> while fewer than \<open>k\<close> requests have been made and \<open>SUCCEEDED\<close>
  from then on; a submission answers with the handle \<open>q-1\<close>; the clock stands still; the
  metadata endpoint answers as given.
\<close>

definition status_response :: "string \<Rightarrow> jv" where
  "status_response st = JDict [(''QueryExecution'', JDict [(''Status'', JDict [(''State'', JStr st)])])]"

definition pipeline_stub :: "nat \<Rightarrow> exn + string \<Rightarrow> nat env" where
  "pipeline_stub k metadata =
     \<lparr> api = (\<lambda>opn args w.
         (case opn of
            GetQueryExecution \<Rightarrow> Inr (status_response (if w < k then ''RUNNING'' else ''SUCCEEDED''))
          | StartQueryExecution \<Rightarrow> Inr (JDict [(''QueryExecutionId'', JStr ''q-1'')])
          | _ \<Rightarrow> Inr (JDict []), Suc w)),
       urlopen_text = (\<lambda>url t w. (metadata, w)),
       time_time = (\<lambda>w. (0, w)),
       time_sleep = (\<lambda>n w. w),
       utcnow = (\<lambda>w. (epoch, w)),
       str_of = (\<lambda>v. []) \<rparr>"

text \<open>
  A query service with a running clock. The world is the number of requests made and the
  time in seconds; a request takes \<open>latency\<close> seconds and is answered by \<open>answer\<close> of the
  number of earlier requests; a sleep of \<open>n\<close> seconds advances the time by \<open>n\<close>.
  \<open>ticked qid j\<close> is the run state after \<open>j\<close> passes that ended in the sleep, for latency 0.
  \<open>stated_reason\<close> is the text of the reason in a status: the provider's string, or
  \<open>Unknown\<close> when there is none.
\<close>

definition failed_response :: "string \<Rightarrow> string \<Rightarrow> jv" where
  "failed_response st why =
     JDict [(''QueryExecution'',
             JDict [(''Status'', JDict [(''State'', JStr st), (''StateChangeReason'', JStr why)])])]"

definition running_until :: "nat \<Rightarrow> jv \<Rightarrow> nat \<Rightarrow> jv" where
  "running_until k final c = (if c < k then status_response ''RUNNING'' else final)"

definition clocked_query :: "(nat \<Rightarrow> jv) \<Rightarrow> nat \<Rightarrow> (nat \<times> nat) env" where
  "clocked_query answer latency =
     \<lparr> api = (\<lambda>opn args w. (Inr (answer (fst w)), (Suc (fst w), snd w + latency))),
       urlopen_text = (\<lambda>url t w. (Inr ''i-0'', w)),
       time_time = (\<lambda>w. (real (snd w), w)),
       time_sleep = (\<lambda>n w. (fst w, snd w + n)),
       utcnow = (\<lambda>w. (epoch, w)),
       str_of = (\<lambda>v. []) \<rparr>"

definition ticked :: "jv \<Rightarrow> nat \<Rightarrow> (nat \<times> nat) run" where
  "ticked qid j =
     \<lparr>world = (j, 2 * j),
      calls = concat (replicate j [Api GetQueryExecution (JDict [(''QueryExecutionId'', qid)]), Sleep 2]),
      out = []\<rparr>"

definition stated_reason :: "'w env \<Rightarrow> (string \<times> jv) list \<Rightarrow> string" where
  "stated_reason E status =
     (case map_of status ''StateChangeReason'' of
        None \<Rightarrow> ''Unknown''
      | Some (JStr why) \<Rightarrow> why
      | Some v \<Rightarrow> str_of E v)"

text \<open>
  Reading a field of a timestamp back: the number a string of decimal digits denotes. A
  sample date, and the sample service with the clock set to a given date.
\<close>

definition digit_value :: "char \<Rightarrow> nat" where
  "digit_value c = of_char c - 48"

definition decimal :: "string \<Rightarrow> nat" where
  "decimal t = foldl (\<lambda>a c. 10 * a + digit_value c) 0 t"

definition launch_day :: datetime where
  "launch_day = \<lparr>year = 2024, month = 3, day = 9, hour = 14, minute = 5, second = 7\<rparr>"

definition dated_stub :: "datetime \<Rightarrow> nat env" where
  "dated_stub d = (pipeline_stub 0 (Inr ''i-0'')) \<lparr>utcnow := (\<lambda>w. (d, w))\<rparr>"

fun is_copy :: "call \<Rightarrow> bool" where
  "is_copy (Api CopyObject args) = True"
| "is_copy _ = False"

text \<open>Two configurations: only the bucket set; the bucket and the production prefix set.\<close>

definition demo_config :: config where
  "demo_config = load_config [''BUCKET'' \<mapsto> ''demo-bucket'']"

definition archive_config :: config where
  "archive_config = load_config [''BUCKET'' \<mapsto> ''demo-bucket'', ''PROD_PREFIX'' \<mapsto> ''archive/'']"

definition metadata_timeout :: exn where
  "metadata_timeout = OtherError ''URLError'' ''<urlopen error timed out>''"


section \<open>Properties of the upload trigger\<close>

lemma record_check_True_iff: "record_check rec = Inr True \<longleftrightarrow> qualifies rec"
  unfolding record_check_def qualifies_def
  by (cases "dict_get rec ''eventSource'' JNone";
      cases "py_path rec [Key ''s3'', Key ''object'', Key ''key'']")
     (auto split: sum.splits jv.splits if_splits elim: str_startswith.elims str_lower_endswith.elims)

lemma scan_records_no_hit:
  "\<forall>r \<in> set recs. record_check r \<noteq> Inr True \<Longrightarrow> scan_records recs \<noteq> Inr True"
  by (induction recs) (auto split: sum.splits)


lemma should_process_try_records:
  "event_records event \<noteq> [] \<Longrightarrow> should_process_try event = scan_records (event_records event)"
  unfolding should_process_try_def event_records_def by (auto split: sum.splits)

lemma should_process_no_hit:
  assumes "\<forall>r \<in> set (event_records event). \<not> qualifies r"
  shows "should_process event = Inr False"
proof (cases "should_process_try event")
  case (Inl e)
  then show ?thesis by (simp add: should_process_def)
next
  case (Inr b)
  have "should_process_try event \<noteq> Inr True"
  proof (cases "event_records event = []")
    case True
    then show ?thesis
      unfolding should_process_try_def event_records_def by (auto split: sum.splits)
  next
    case False
    with assms show ?thesis
      by (simp add: should_process_try_records scan_records_no_hit record_check_True_iff)
  qed
  with Inr show ?thesis by (cases b) (auto simp: should_process_def)
qed







text \<open>
  C3. With the instance identifier configured, an event none of whose records qualifies is
  answered with \<open>{ok: True, skipped: True}\<close> in an unchanged state: no request of any kind
  is issued.
\<close>

theorem no_qualifying_record_skips:
  assumes "INSTANCE_ID = Some iid" and "iid \<noteq> []"
    and "\<forall>rec \<in> set (event_records event). \<not> qualifies rec"
  shows "lambda_handler E INSTANCE_ID event s = (Inr skipped, s) \<and> issued s s = []"
  using assms by (simp add: lambda_handler_def should_process_no_hit issued_def)

lemma qualifies_put: "qualifies (put_record ''raw/a.JSON'')"
  by (simp add: qualifies_def put_record_def lower_char_def suffix_def)

theorem no_qualifying_record_skips_witness:
  "lambda_handler (ec2_stub (JStr ''stopped'') (Inr JNone)) (Some ''i-0abc'')
     (JDict [(''Records'', JList [put_record ''raw/a.csv'', put_record ''in/a.json'', JInt 3])]) (idle ())
   = (Inr skipped, idle ())"
  using no_qualifying_record_skips
    [of "Some ''i-0abc''" "''i-0abc''"
        "JDict [(''Records'', JList [put_record ''raw/a.csv'', put_record ''in/a.json'', JInt 3])]"
        "ec2_stub (JStr ''stopped'') (Inr JNone)" "idle ()"]
  by (simp add: event_records_def qualifies_def put_record_def lower_char_def suffix_def)



lemma issued_append: "calls s' = calls s @ cs \<Longrightarrow> issued s s' = cs"
  by (simp add: issued_def)




lemma log_client_error_keeps:
  "log_client_error (r, st) = (r', s') \<Longrightarrow> r' = r \<and> world s' = world st \<and> calls s' = calls st"
  by (auto simp: log_client_error_def print_line_def split: sum.splits exn.splits)

text \<open>
  C4. For an actionable event with the instance identifier configured, once
  \<open>describe_instances\<close> has answered and the state name has been read: when the state is
  \<open>stopped\<close> or \<open>stopping\<close> the compute service receives exactly one \<open>start_instances\<close>
  request for the instance, between the describe and the wait (the wait runs in the world
  the start left; a failing start ends the run there); for any other state the wait runs
  in the world the describe left and no start request is made.
\<close>

theorem start_request_iff_stopped:
  assumes "INSTANCE_ID = Some iid" and "iid \<noteq> []"
    and "should_process event = Inr True"
    and "api E DescribeInstances (JDict [(''InstanceIds'', JList [JStr iid])]) (world s) = (Inr desc, w1)"
    and "py_path desc [Key ''Reservations'', Idx 0, Key ''Instances'', Idx 0, Key ''State'', Key ''Name'']
           = Inr state"
    and "api E StartInstances (JDict [(''InstanceIds'', JList [JStr iid])]) w1 = (started, w2)"
  shows "\<exists>r s'. lambda_handler E INSTANCE_ID event s = (r, s') \<and>
     (if state = JStr ''stopped'' \<or> state = JStr ''stopping'' then
        (case started of
           Inl e \<Rightarrow>
             r = Inl e \<and> world s' = w2 \<and>
             calls s' = calls s @
               [Api DescribeInstances (JDict [(''InstanceIds'', JList [JStr iid])]),
                Api StartInstances (JDict [(''InstanceIds'', JList [JStr iid])])]
         | Inr x \<Rightarrow>
             world s' =
               snd (api E WaitInstanceStatusOk
                      (JDict [(''InstanceIds'', JList [JStr iid]),
                              (''WaiterConfig'', JDict [(''Delay'', JInt 10), (''MaxAttempts'', JInt 30)])])
                      w2) \<and>
             calls s' = calls s @
               [Api DescribeInstances (JDict [(''InstanceIds'', JList [JStr iid])]),
                Api StartInstances (JDict [(''InstanceIds'', JList [JStr iid])]),
                Api WaitInstanceStatusOk
                  (JDict [(''InstanceIds'', JList [JStr iid]),
                          (''WaiterConfig'', JDict [(''Delay'', JInt 10), (''MaxAttempts'', JInt 30)])])])
      else
        world s' =
          snd (api E WaitInstanceStatusOk
                 (JDict [(''InstanceIds'', JList [JStr iid]),
                         (''WaiterConfig'', JDict [(''Delay'', JInt 10), (''MaxAttempts'', JInt 30)])])
                 w1) \<and>
        calls s' = calls s @
          [Api DescribeInstances (JDict [(''InstanceIds'', JList [JStr iid])]),
           Api WaitInstanceStatusOk
             (JDict [(''InstanceIds'', JList [JStr iid]),
                     (''WaiterConfig'', JDict [(''Delay'', JInt 10), (''MaxAttempts'', JInt 30)])])])"
proof -
  let ?ids = "JDict [(''InstanceIds'', JList [JStr iid])]"
  let ?wargs = "JDict [(''InstanceIds'', JList [JStr iid]),
                       (''WaiterConfig'', JDict [(''Delay'', JInt 10), (''MaxAttempts'', JInt 30)])]"
  obtain r0 s0 where ht: "handler_try E iid s = (r0, s0)"
    by (cases "handler_try E iid s")
  obtain r s' where lg: "log_client_error (r0, s0) = (r, s')"
    by (cases "log_client_error (r0, s0)")
  from log_client_error_keeps[OF lg] have k: "r = r0" "world s' = world s0" "calls s' = calls s0"
    by simp_all
  have lh: "lambda_handler E INSTANCE_ID event s = (r, s')"
    using assms(1-3) ht lg by (simp add: lambda_handler_def)
  obtain waited1 w3 where wt1: "api E WaitInstanceStatusOk ?wargs w1 = (waited1, w3)"
    by (cases "api E WaitInstanceStatusOk ?wargs w1")
  obtain waited2 w4 where wt2: "api E WaitInstanceStatusOk ?wargs w2 = (waited2, w4)"
    by (cases "api E WaitInstanceStatusOk ?wargs w2")
  have d: "call_api E DescribeInstances ?ids s =
      (Inr desc, s\<lparr>world := w1, calls := calls s @ [Api DescribeInstances ?ids]\<rparr>)"
    using assms(4) by (simp add: call_api_def)
  have p: "py_path desc state_path = Inr state" using assms(5) by (simp add: state_path_def)
  show ?thesis
  proof (cases "state = JStr ''stopped'' \<or> state = JStr ''stopping''")
    case True
    show ?thesis
    proof (cases started)
      case (Inl e)
      with True d p assms(6) have "handler_try E iid s =
          (Inl e, s\<lparr>world := w2, calls := calls s @ [Api DescribeInstances ?ids, Api StartInstances ?ids]\<rparr>)"
        by (auto simp: handler_try_def instance_ids_def start_if_stopped_def call_api_def)
      with ht have "r0 = Inl e" "world s0 = w2"
          "calls s0 = calls s @ [Api DescribeInstances ?ids, Api StartInstances ?ids]"
        by auto
      with k have "r = Inl e \<and> world s' = w2 \<and>
          calls s' = calls s @ [Api DescribeInstances ?ids, Api StartInstances ?ids]"
        by simp
      with lh True Inl show ?thesis by (intro exI[of _ r] exI[of _ s']) simp
    next
      case (Inr x)
      with True d p assms(6) wt2 have "\<exists>r1. handler_try E iid s =
          (r1, s\<lparr>world := w4, calls := calls s @ [Api DescribeInstances ?ids, Api StartInstances ?ids,
                                                   Api WaitInstanceStatusOk ?wargs]\<rparr>)"
        by (auto simp: handler_try_def instance_ids_def wait_args_def start_if_stopped_def call_api_def
            split: sum.splits)
      with ht have "world s0 = w4"
          "calls s0 = calls s @ [Api DescribeInstances ?ids, Api StartInstances ?ids,
                                 Api WaitInstanceStatusOk ?wargs]"
        by auto
      with k wt2 have "world s' = snd (api E WaitInstanceStatusOk ?wargs w2) \<and>
          calls s' = calls s @ [Api DescribeInstances ?ids, Api StartInstances ?ids,
                                Api WaitInstanceStatusOk ?wargs]"
        by simp
      with lh True Inr show ?thesis by (intro exI[of _ r] exI[of _ s']) simp
    qed
  next
    case False
    with d p wt1 have "\<exists>r1. handler_try E iid s =
          (r1, s\<lparr>world := w3, calls := calls s @ [Api DescribeInstances ?ids,
                                                   Api WaitInstanceStatusOk ?wargs]\<rparr>)"
      by (auto simp: handler_try_def instance_ids_def wait_args_def start_if_stopped_def call_api_def
          split: sum.splits)
    with ht have "world s0 = w3"
        "calls s0 = calls s @ [Api DescribeInstances ?ids, Api WaitInstanceStatusOk ?wargs]"
      by auto
    with k wt1 have "world s' = snd (api E WaitInstanceStatusOk ?wargs w1) \<and>
        calls s' = calls s @ [Api DescribeInstances ?ids, Api WaitInstanceStatusOk ?wargs]"
      by simp
    with lh False show ?thesis by (intro exI[of _ r] exI[of _ s']) simp
  qed
qed




lemmas stub_eval =
  lambda_handler_def should_process_def should_process_try_def record_check_def put_record_def
  records_event_def lower_char_def suffix_def handler_try_def call_api_def ec2_stub_def
  describe_response_def state_path_def start_if_stopped_def log_client_error_def idle_def
  instance_ids_def wait_args_def print_line_def



theorem start_request_iff_stopped_witness:
  "should_process (records_event [put_record ''raw/a.json'']) = Inr True \<and>
   api (ec2_recorder (JStr ''stopping'')) DescribeInstances (JDict [(''InstanceIds'', JList [JStr ''i-0abc''])]) []
     = (Inr (describe_response (JStr ''stopping'')), [DescribeInstances]) \<and>
   py_path (describe_response (JStr ''stopping''))
     [Key ''Reservations'', Idx 0, Key ''Instances'', Idx 0, Key ''State'', Key ''Name''] = Inr (JStr ''stopping'') \<and>
   api (ec2_recorder (JStr ''stopping'')) StartInstances (JDict [(''InstanceIds'', JList [JStr ''i-0abc''])])
       [DescribeInstances]
     = (Inr (JDict []), [DescribeInstances, StartInstances]) \<and>
   world (snd (lambda_handler (ec2_recorder (JStr ''stopping'')) (Some ''i-0abc'')
                 (records_event [put_record ''raw/a.json'']) (idle [])))
     = [DescribeInstances, StartInstances, WaitInstanceStatusOk] \<and>
   api (ec2_recorder (JStr ''running'')) DescribeInstances (JDict [(''InstanceIds'', JList [JStr ''i-0abc''])]) []
     = (Inr (describe_response (JStr ''running'')), [DescribeInstances]) \<and>
   py_path (describe_response (JStr ''running''))
     [Key ''Reservations'', Idx 0, Key ''Instances'', Idx 0, Key ''State'', Key ''Name''] = Inr (JStr ''running'') \<and>
   world (snd (lambda_handler (ec2_recorder (JStr ''running'')) (Some ''i-0abc'')
                 (records_event [put_record ''raw/a.json'']) (idle [])))
     = [DescribeInstances, WaitInstanceStatusOk]"
proof -
  let ?ids = "JDict [(''InstanceIds'', JList [JStr ''i-0abc''])]"
  let ?path = "[Key ''Reservations'', Idx 0, Key ''Instances'', Idx 0, Key ''State'', Key ''Name'']"
  have ne: "''i-0abc'' \<noteq> []" by simp
  have h1: "should_process (records_event [put_record ''raw/a.json'']) = Inr True"
    by (simp add: stub_eval)
  have h2: "api (ec2_recorder (JStr ''stopping'')) DescribeInstances ?ids []
     = (Inr (describe_response (JStr ''stopping'')), [DescribeInstances])"
    by (simp add: ec2_recorder_def)
  have h3: "py_path (describe_response (JStr ''stopping'')) ?path = Inr (JStr ''stopping'')"
    by (simp add: describe_response_def)
  have h4: "api (ec2_recorder (JStr ''stopping'')) StartInstances ?ids [DescribeInstances]
     = (Inr (JDict []), [DescribeInstances, StartInstances])"
    by (simp add: ec2_recorder_def)
  have g2: "api (ec2_recorder (JStr ''running'')) DescribeInstances ?ids []
     = (Inr (describe_response (JStr ''running'')), [DescribeInstances])"
    by (simp add: ec2_recorder_def)
  have g3: "py_path (describe_response (JStr ''running'')) ?path = Inr (JStr ''running'')"
    by (simp add: describe_response_def)
  have g4: "api (ec2_recorder (JStr ''running'')) StartInstances ?ids [DescribeInstances]
     = (Inr (JDict []), [DescribeInstances, StartInstances])"
    by (simp add: ec2_recorder_def)
  have w0: "world (idle []) = ([] :: operation list)" by (simp add: idle_def)
  from start_request_iff_stopped
         [OF refl ne h1, where E = "ec2_recorder (JStr ''stopping'')" and s = "idle []",
          unfolded w0, OF h2 h3 h4]
  have c1: "world (snd (lambda_handler (ec2_recorder (JStr ''stopping'')) (Some ''i-0abc'')
                 (records_event [put_record ''raw/a.json'']) (idle [])))
     = [DescribeInstances, StartInstances, WaitInstanceStatusOk]"
    by (auto simp: ec2_recorder_def)
  from start_request_iff_stopped
         [OF refl ne h1, where E = "ec2_recorder (JStr ''running'')" and s = "idle []",
          unfolded w0, OF g2 g3 g4]
  have c2: "world (snd (lambda_handler (ec2_recorder (JStr ''running'')) (Some ''i-0abc'')
                 (records_event [put_record ''raw/a.json'']) (idle [])))
     = [DescribeInstances, WaitInstanceStatusOk]"
    by (auto simp: ec2_recorder_def)
  from h1 h2 h3 h4 c1 g2 g3 c2 show ?thesis by (intro conjI)
qed




section \<open>Properties of the pipeline runner\<close>

lemma wait_loop_Leave:
  "wait_poll E qid t start s = Leave r \<Longrightarrow> wait_loop E qid t start s = Some r"
  by (subst wait_loop.simps) simp

lemma wait_loop_Again:
  "wait_poll E qid t start s = Again s' \<Longrightarrow> wait_loop E qid t start s = wait_loop E qid t start s'"
  by (subst wait_loop.simps) simp

lemma wait_loop_polls:
  "polls n E qid t start s = Some s' \<Longrightarrow> wait_loop E qid t start s = wait_loop E qid t start s'"
proof (induction n arbitrary: s)
  case 0
  then show ?case by simp
next
  case (Suc n)
  then obtain s1 where a: "wait_poll E qid t start s = Again s1" and p: "polls n E qid t start s1 = Some s'"
    by (auto split: iteration.splits)
  from wait_loop_Again[OF a] Suc.IH[OF p] show ?case by simp
qed

lemma polls_Suc_end:
  "polls n E qid t start s = Some s' \<Longrightarrow> wait_poll E qid t start s' = Again s'' \<Longrightarrow>
   polls (Suc n) E qid t start s = Some s''"
proof (induction n arbitrary: s)
  case 0
  then show ?case by simp
next
  case (Suc n)
  from Suc.prems(1) obtain s1 where a: "wait_poll E qid t start s = Again s1"
      and p: "polls n E qid t start s1 = Some s'"
    by (auto split: iteration.splits)
  from Suc.IH[OF p Suc.prems(2)] have "polls (Suc n) E qid t start s1 = Some s''" .
  with a show ?case by (simp del: polls.simps(2) add: polls.simps(2)[of "Suc n"])
qed

lemma wait_poll_cases:
  assumes "call_api E GetQueryExecution (poll_args (JStr q)) sn = (Inr res, s1)"
    and "py_path res state_of_query = Inr state"
    and "status_reason res = Inr reason"
    and "read_clock E s1 = (now, s2)"
  shows "wait_poll E (JStr q) timeout_sec start sn =
     (if state = JStr ''SUCCEEDED'' then Leave (Inr res, s1)
      else if state = JStr ''FAILED'' then
        Leave (Inl (RuntimeError (''Athena query '' @ q @ '' FAILED: '' @ py_str E reason)), s1)
      else if state = JStr ''CANCELLED'' then
        Leave (Inl (RuntimeError (''Athena query '' @ q @ '' CANCELLED: '' @ py_str E reason)), s1)
      else if now - start > real_of_int timeout_sec then
        Leave (Inl (TimeoutError (''Athena query '' @ q @ '' timed out'')), s2)
      else Again (do_sleep E 2 s2))"
  using assms by (simp add: wait_poll_def py_str_def)

lemma concat_replicate_commute: "concat (replicate j xs) @ xs = xs @ concat (replicate j xs)"
  by (induction j) simp_all

lemma field_Some_dict: "field v k = Some x \<Longrightarrow> \<exists>kvs. v = JDict kvs \<and> map_of kvs k = Some x"
  by (cases v) simp_all

lemma response_paths:
  assumes "field res ''QueryExecution'' = Some qe" and "field qe ''Status'' = Some (JDict status)"
    and "map_of status ''State'' = Some state"
  shows "py_path res state_of_query = Inr state"
    and "status_reason res =
           Inr (case map_of status ''StateChangeReason'' of None \<Rightarrow> JStr ''Unknown'' | Some r \<Rightarrow> r)"
proof -
  from field_Some_dict[OF assms(1)] obtain top where t: "res = JDict top" "map_of top ''QueryExecution'' = Some qe"
    by blast
  from field_Some_dict[OF assms(2)] obtain mid where m: "qe = JDict mid" "map_of mid ''Status'' = Some (JDict status)"
    by blast
  from t m assms(3) show "py_path res state_of_query = Inr state"
    by (simp add: state_of_query_def)
  from t m show "status_reason res =
           Inr (case map_of status ''StateChangeReason'' of None \<Rightarrow> JStr ''Unknown'' | Some r \<Rightarrow> r)"
    by (simp add: status_reason_def)
qed

lemma py_str_reason:
  "py_str E (case map_of status ''StateChangeReason'' of None \<Rightarrow> JStr ''Unknown'' | Some r \<Rightarrow> r)
     = stated_reason E status"
  by (simp add: py_str_def stated_reason_def split: option.splits jv.splits)


lemma ticked_poll:
  assumes "j < k" and "2 * int k \<le> t"
  shows "wait_poll (clocked_query (running_until k final) 0) qid t 0 (ticked qid j)
           = Again (ticked qid (Suc j))"
proof -
  from assms have "\<not> real_of_int t < real (2 * j)"
    by (simp add: not_less)
  with assms(1) show ?thesis
    by (simp add: wait_poll_def state_of_query_def call_api_def clocked_query_def ticked_def
        running_until_def status_response_def read_clock_def do_sleep_def poll_args_def
        concat_replicate_commute)
qed


lemma ticked_polls:
  "2 * int k \<le> t \<Longrightarrow> i + j \<le> k \<Longrightarrow>
   polls j (clocked_query (running_until k final) 0) qid t 0 (ticked qid i) = Some (ticked qid (i + j))"
  by (induction j arbitrary: i) (simp_all add: ticked_poll)

lemma ticked_calls: "length (filter is_poll (calls (ticked qid k))) = k"
  by (induction k) (simp_all add: ticked_def)

lemma ticked_run:
  assumes "2 * int k \<le> t"
  shows "wait_for_query (clocked_query (running_until k (status_response ''SUCCEEDED'')) 0) qid t (idle (0, 0)) =
     Some (Inr (status_response ''SUCCEEDED''),
           \<lparr>world = (Suc k, 2 * k),
            calls = calls (ticked qid k) @ [Api GetQueryExecution (JDict [(''QueryExecutionId'', qid)])],
            out = []\<rparr>)"
proof -
  let ?E = "clocked_query (running_until k (status_response ''SUCCEEDED'')) 0"
  have i: "idle (0, 0) = ticked qid 0" by (simp add: idle_def ticked_def)
  have rc: "read_clock ?E (ticked qid 0) = (0, ticked qid 0)"
    by (simp add: read_clock_def clocked_query_def ticked_def)
  from ticked_polls[OF assms, where i = 0 and j = k and qid = qid and final = "status_response ''SUCCEEDED''"]
  have p: "polls k ?E qid t 0 (ticked qid 0) = Some (ticked qid k)" by simp
  have l: "wait_poll ?E qid t 0 (ticked qid k) =
     Leave (Inr (status_response ''SUCCEEDED''),
            \<lparr>world = (Suc k, 2 * k),
             calls = calls (ticked qid k) @ [Api GetQueryExecution (JDict [(''QueryExecutionId'', qid)])],
             out = []\<rparr>)"
    by (simp add: wait_poll_def state_of_query_def call_api_def clocked_query_def ticked_def
        running_until_def status_response_def poll_args_def)
  from wait_loop_polls[OF p] wait_loop_Leave[OF l] rc show ?thesis
    unfolding i by (simp add: wait_for_query_def)
qed

text \<open>
  C1, amended. Take any run of \<open>wait_for_query\<close> for the handle \<open>q\<close> and any timeout: the
  clock is read once at the start; let \<open>n\<close> passes of the loop have ended in the sleep, and
  let the service answer the next status request with a payload that holds a state. Then
  the call returns that payload when the state is \<open>SUCCEEDED\<close>, whatever the clock says;
  it raises a \<open>RuntimeError\<close> whose message holds the handle and the provider's stated
  reason (\<open>Unknown\<close> when the status has none) when the state is \<open>FAILED\<close> or \<open>CANCELLED\<close>;
  on any other state it reads the clock again and raises a \<open>TimeoutError\<close> whose message
  holds the handle when that reading is more than the timeout after the start, and
  otherwise sleeps 2 seconds and polls again. The default timeout is 300. There is no
  bound on the number of passes other than the time: on a clock that only the sleeps
  advance, a run with timeout at least \<open>2k\<close> polls \<open>k + 1\<close> times and returns.
\<close>

theorem wait_for_query_outcomes:
  assumes "time_time E (world s) = (start, w0)"
    and "polls n E (JStr q) timeout_sec start (s\<lparr>world := w0\<rparr>) = Some sn"
    and "api E GetQueryExecution (JDict [(''QueryExecutionId'', JStr q)]) (world sn) = (Inr res, w1)"
    and "field res ''QueryExecution'' = Some qe"
    and "field qe ''Status'' = Some (JDict status)"
    and "map_of status ''State'' = Some state"
    and "time_time E w1 = (now, w2)"
  shows "wait_for_query E (JStr q) timeout_sec s =
           (let polled = sn\<lparr>world := w1,
                            calls := calls sn @ [Api GetQueryExecution (JDict [(''QueryExecutionId'', JStr q)])]\<rparr>
            in if state = JStr ''SUCCEEDED'' then Some (Inr res, polled)
               else if state = JStr ''FAILED'' then
                 Some (Inl (RuntimeError (''Athena query '' @ q @ '' FAILED: '' @ stated_reason E status)), polled)
               else if state = JStr ''CANCELLED'' then
                 Some (Inl (RuntimeError (''Athena query '' @ q @ '' CANCELLED: '' @ stated_reason E status)), polled)
               else if now - start > real_of_int timeout_sec then
                 Some (Inl (TimeoutError (''Athena query '' @ q @ '' timed out'')), polled\<lparr>world := w2\<rparr>)
               else wait_loop E (JStr q) timeout_sec start
                      (polled\<lparr>world := time_sleep E 2 w2, calls := calls polled @ [Sleep 2]\<rparr>)) \<and>
         (state \<notin> set [JStr ''SUCCEEDED'', JStr ''FAILED'', JStr ''CANCELLED''] \<and>
          \<not> now - start > real_of_int timeout_sec \<longrightarrow>
            polls (Suc n) E (JStr q) timeout_sec start (s\<lparr>world := w0\<rparr>) =
              Some (sn\<lparr>world := time_sleep E 2 w2,
                       calls := calls sn @
                         [Api GetQueryExecution (JDict [(''QueryExecutionId'', JStr q)]), Sleep 2]\<rparr>)) \<and>
         sublist q (''Athena query '' @ q @ '' FAILED: '' @ stated_reason E status) \<and>
         sublist (stated_reason E status) (''Athena query '' @ q @ '' FAILED: '' @ stated_reason E status) \<and>
         sublist q (''Athena query '' @ q @ '' CANCELLED: '' @ stated_reason E status) \<and>
         sublist (stated_reason E status) (''Athena query '' @ q @ '' CANCELLED: '' @ stated_reason E status) \<and>
         sublist q (''Athena query '' @ q @ '' timed out'') \<and>
         default_timeout_sec = 300 \<and>
         (2 * int k \<le> timeout_sec \<longrightarrow>
            (\<exists>s'. wait_for_query (clocked_query (running_until k (status_response ''SUCCEEDED'')) 0)
                     (JStr q) timeout_sec (idle (0, 0)) =
                    Some (Inr (status_response ''SUCCEEDED''), s') \<and>
                  length (filter is_poll (calls s')) = Suc k \<and> world s' = (Suc k, 2 * k)))"
proof -
  let ?polled = "sn\<lparr>world := w1,
                     calls := calls sn @ [Api GetQueryExecution (JDict [(''QueryExecutionId'', JStr q)])]\<rparr>"
  have rc0: "read_clock E s = (start, s\<lparr>world := w0\<rparr>)"
    using assms(1) by (simp add: read_clock_def)
  have ca: "call_api E GetQueryExecution (poll_args (JStr q)) sn = (Inr res, ?polled)"
    using assms(3) by (simp add: call_api_def poll_args_def)
  have rc1: "read_clock E ?polled = (now, ?polled\<lparr>world := w2\<rparr>)"
    using assms(7) by (simp add: read_clock_def)
  have sl: "do_sleep E 2 (?polled\<lparr>world := w2\<rparr>) =
      ?polled\<lparr>world := time_sleep E 2 w2, calls := calls ?polled @ [Sleep 2]\<rparr>"
    by (simp add: do_sleep_def)
  note paths = response_paths[OF assms(4-6)]
  note step = wait_poll_cases[OF ca paths rc1, of timeout_sec start, unfolded py_str_reason sl]
  have loop: "wait_for_query E (JStr q) timeout_sec s = wait_loop E (JStr q) timeout_sec start sn"
    using rc0 wait_loop_polls[OF assms(2)] by (simp add: wait_for_query_def)
  have a: "wait_for_query E (JStr q) timeout_sec s =
           (let polled = ?polled
            in if state = JStr ''SUCCEEDED'' then Some (Inr res, polled)
               else if state = JStr ''FAILED'' then
                 Some (Inl (RuntimeError (''Athena query '' @ q @ '' FAILED: '' @ stated_reason E status)), polled)
               else if state = JStr ''CANCELLED'' then
                 Some (Inl (RuntimeError (''Athena query '' @ q @ '' CANCELLED: '' @ stated_reason E status)), polled)
               else if now - start > real_of_int timeout_sec then
                 Some (Inl (TimeoutError (''Athena query '' @ q @ '' timed out'')), polled\<lparr>world := w2\<rparr>)
               else wait_loop E (JStr q) timeout_sec start
                      (polled\<lparr>world := time_sleep E 2 w2, calls := calls polled @ [Sleep 2]\<rparr>))"
    unfolding loop Let_def
    by (subst wait_loop.simps) (simp add: step)
  have b: "state \<notin> set [JStr ''SUCCEEDED'', JStr ''FAILED'', JStr ''CANCELLED''] \<and>
          \<not> now - start > real_of_int timeout_sec \<longrightarrow>
            polls (Suc n) E (JStr q) timeout_sec start (s\<lparr>world := w0\<rparr>) =
              Some (sn\<lparr>world := time_sleep E 2 w2,
                       calls := calls sn @
                         [Api GetQueryExecution (JDict [(''QueryExecutionId'', JStr q)]), Sleep 2]\<rparr>)"
  proof
    assume h: "state \<notin> set [JStr ''SUCCEEDED'', JStr ''FAILED'', JStr ''CANCELLED''] \<and>
          \<not> now - start > real_of_int timeout_sec"
    with step have "wait_poll E (JStr q) timeout_sec start sn =
        Again (?polled\<lparr>world := time_sleep E 2 w2, calls := calls ?polled @ [Sleep 2]\<rparr>)"
      by simp
    from polls_Suc_end[OF assms(2) this]
    show "polls (Suc n) E (JStr q) timeout_sec start (s\<lparr>world := w0\<rparr>) =
              Some (sn\<lparr>world := time_sleep E 2 w2,
                       calls := calls sn @
                         [Api GetQueryExecution (JDict [(''QueryExecutionId'', JStr q)]), Sleep 2]\<rparr>)"
      by simp
  qed
  have d: "2 * int k \<le> timeout_sec \<longrightarrow>
            (\<exists>s'. wait_for_query (clocked_query (running_until k (status_response ''SUCCEEDED'')) 0)
                     (JStr q) timeout_sec (idle (0, 0)) =
                    Some (Inr (status_response ''SUCCEEDED''), s') \<and>
                  length (filter is_poll (calls s')) = Suc k \<and> world s' = (Suc k, 2 * k))"
    by (auto simp: ticked_run ticked_calls)
  have e: "sublist q (''Athena query '' @ q @ '' FAILED: '' @ stated_reason E status)"
          "sublist q (''Athena query '' @ q @ '' CANCELLED: '' @ stated_reason E status)"
          "sublist q (''Athena query '' @ q @ '' timed out'')"
    by (rule sublist_appendI)+
  have f: "sublist (stated_reason E status) (''Athena query '' @ q @ '' FAILED: '' @ stated_reason E status)"
          "sublist (stated_reason E status) (''Athena query '' @ q @ '' CANCELLED: '' @ stated_reason E status)"
    by (metis append.assoc sublist_append_leftI)+
  have g: "default_timeout_sec = 300" by (simp add: default_timeout_sec_def)
  from a b d e f g show ?thesis by (intro conjI)
qed


lemmas clock_eval =
  wait_for_query_def wait_loop.simps wait_poll_def state_of_query_def status_reason_def poll_args_def
  call_api_def read_clock_def do_sleep_def clocked_query_def running_until_def status_response_def
  failed_response_def idle_def py_str_def

theorem wait_for_query_outcomes_witness:
  "time_time (clocked_query (running_until 1 (failed_response ''FAILED'' ''Query exhausted resources'')) 1)
     (world (idle (0, 0))) = (0, (0, 0)) \<and>
   polls 1 (clocked_query (running_until 1 (failed_response ''FAILED'' ''Query exhausted resources'')) 1)
     (JStr ''q-1'') 300 0 ((idle (0, 0))\<lparr>world := (0, 0)\<rparr>)
     = Some \<lparr>world = (1, 3),
             calls = [Api GetQueryExecution (JDict [(''QueryExecutionId'', JStr ''q-1'')]), Sleep 2],
             out = []\<rparr> \<and>
   api (clocked_query (running_until 1 (failed_response ''FAILED'' ''Query exhausted resources'')) 1)
     GetQueryExecution (JDict [(''QueryExecutionId'', JStr ''q-1'')]) (1, 3)
     = (Inr (failed_response ''FAILED'' ''Query exhausted resources''), (2, 4)) \<and>
   field (failed_response ''FAILED'' ''Query exhausted resources'') ''QueryExecution''
     = Some (JDict [(''Status'', JDict [(''State'', JStr ''FAILED''),
                                        (''StateChangeReason'', JStr ''Query exhausted resources'')])]) \<and>
   time_time (clocked_query (running_until 1 (failed_response ''FAILED'' ''Query exhausted resources'')) 1)
     (2, 4) = (4, (2, 4)) \<and>
   wait_for_query (clocked_query (running_until 1 (failed_response ''FAILED'' ''Query exhausted resources'')) 1)
     (JStr ''q-1'') 300 (idle (0, 0))
     = Some (Inl (RuntimeError ''Athena query q-1 FAILED: Query exhausted resources''),
             \<lparr>world = (2, 4),
              calls = [Api GetQueryExecution (JDict [(''QueryExecutionId'', JStr ''q-1'')]), Sleep 2,
                       Api GetQueryExecution (JDict [(''QueryExecutionId'', JStr ''q-1'')])],
              out = []\<rparr>) \<and>
   polls 1 (clocked_query (running_until 5 (status_response ''SUCCEEDED'')) 200)
     (JStr ''q-1'') 300 0 ((idle (0, 0))\<lparr>world := (0, 0)\<rparr>)
     = Some \<lparr>world = (1, 202),
             calls = [Api GetQueryExecution (JDict [(''QueryExecutionId'', JStr ''q-1'')]), Sleep 2],
             out = []\<rparr> \<and>
   api (clocked_query (running_until 5 (status_response ''SUCCEEDED'')) 200)
     GetQueryExecution (JDict [(''QueryExecutionId'', JStr ''q-1'')]) (1, 202)
     = (Inr (status_response ''RUNNING''), (2, 402)) \<and>
   time_time (clocked_query (running_until 5 (status_response ''SUCCEEDED'')) 200) (2, 402)
     = (402, (2, 402)) \<and>
   wait_for_query (clocked_query (running_until 5 (status_response ''SUCCEEDED'')) 200)
     (JStr ''q-1'') 300 (idle (0, 0))
     = Some (Inl (TimeoutError ''Athena query q-1 timed out''),
             \<lparr>world = (2, 402),
              calls = [Api GetQueryExecution (JDict [(''QueryExecutionId'', JStr ''q-1'')]), Sleep 2,
                       Api GetQueryExecution (JDict [(''QueryExecutionId'', JStr ''q-1'')])],
              out = []\<rparr>)"
proof -
  let ?F = "clocked_query (running_until 1 (failed_response ''FAILED'' ''Query exhausted resources'')) 1"
  let ?T = "clocked_query (running_until 5 (status_response ''SUCCEEDED'')) 200"
  let ?get = "Api GetQueryExecution (JDict [(''QueryExecutionId'', JStr ''q-1'')])"
  let ?status = "[(''State'', JStr ''FAILED''), (''StateChangeReason'', JStr ''Query exhausted resources'')]"
  have a1: "time_time ?F (world (idle (0, 0))) = (0, (0, 0))"
    by (simp add: clocked_query_def idle_def)
  have a2: "polls 1 ?F (JStr ''q-1'') 300 0 ((idle (0, 0))\<lparr>world := (0, 0)\<rparr>)
     = Some \<lparr>world = (1, 3), calls = [?get, Sleep 2], out = []\<rparr>"
    by (simp add: clock_eval)
  have a3': "api ?F GetQueryExecution (JDict [(''QueryExecutionId'', JStr ''q-1'')]) (1, 3)
     = (Inr (failed_response ''FAILED'' ''Query exhausted resources''), (2, 4))"
    by (simp add: clocked_query_def running_until_def)
  have a3: "api ?F GetQueryExecution (JDict [(''QueryExecutionId'', JStr ''q-1'')])
       (world \<lparr>world = (1, 3), calls = [?get, Sleep 2], out = []\<rparr>)
     = (Inr (failed_response ''FAILED'' ''Query exhausted resources''), (2, 4))"
    using a3' by simp
  have a4: "field (failed_response ''FAILED'' ''Query exhausted resources'') ''QueryExecution''
     = Some (JDict [(''Status'', JDict ?status)])"
    by (simp add: failed_response_def)
  have a5: "field (JDict [(''Status'', JDict ?status)]) ''Status'' = Some (JDict ?status)" by simp
  have a6: "map_of ?status ''State'' = Some (JStr ''FAILED'')" by simp
  have a7: "time_time ?F (2, 4) = (4, (2, 4))" by (simp add: clocked_query_def)
  note tf = wait_for_query_outcomes[OF a1 a2 a3 a4 a5 a6 a7, THEN conjunct1]
  have cf: "wait_for_query ?F (JStr ''q-1'') 300 (idle (0, 0))
     = Some (Inl (RuntimeError ''Athena query q-1 FAILED: Query exhausted resources''),
             \<lparr>world = (2, 4), calls = [?get, Sleep 2, ?get], out = []\<rparr>)"
    using tf by (simp add: stated_reason_def)
  have b1: "time_time ?T (world (idle (0, 0))) = (0, (0, 0))"
    by (simp add: clocked_query_def idle_def)
  have b2: "polls 1 ?T (JStr ''q-1'') 300 0 ((idle (0, 0))\<lparr>world := (0, 0)\<rparr>)
     = Some \<lparr>world = (1, 202), calls = [?get, Sleep 2], out = []\<rparr>"
    by (simp add: clock_eval)
  have b3': "api ?T GetQueryExecution (JDict [(''QueryExecutionId'', JStr ''q-1'')]) (1, 202)
     = (Inr (status_response ''RUNNING''), (2, 402))"
    by (simp add: clocked_query_def running_until_def)
  have b3: "api ?T GetQueryExecution (JDict [(''QueryExecutionId'', JStr ''q-1'')])
       (world \<lparr>world = (1, 202), calls = [?get, Sleep 2], out = []\<rparr>)
     = (Inr (status_response ''RUNNING''), (2, 402))"
    using b3' by simp
  have b4: "field (status_response ''RUNNING'') ''QueryExecution''
     = Some (JDict [(''Status'', JDict [(''State'', JStr ''RUNNING'')])])"
    by (simp add: status_response_def)
  have b5: "field (JDict [(''Status'', JDict [(''State'', JStr ''RUNNING'')])]) ''Status''
     = Some (JDict [(''State'', JStr ''RUNNING'')])" by simp
  have b6: "map_of [(''State'', JStr ''RUNNING'')] ''State'' = Some (JStr ''RUNNING'')" by simp
  have b7: "time_time ?T (2, 402) = (402, (2, 402))" by (simp add: clocked_query_def)
  note tt = wait_for_query_outcomes[OF b1 b2 b3 b4 b5 b6 b7, THEN conjunct1]
  have ct: "wait_for_query ?T (JStr ''q-1'') 300 (idle (0, 0))
     = Some (Inl (TimeoutError ''Athena query q-1 timed out''),
             \<lparr>world = (2, 402), calls = [?get, Sleep 2, ?get], out = []\<rparr>)"
    using tt by simp
  from a1 a2 a3' a4 a7 cf b2 b3' b7 ct show ?thesis by (intro conjI)
qed

text \<open>
  C1 as stated fails in its timeout clause: the time is checked only right after a
  non-terminal poll. Here the first poll ends at 299 seconds, the sleep carries the clock
  past the timeout of 300, and the second poll answers \<open>SUCCEEDED\<close>: the payload is returned
  and no timeout error is raised.
\<close>

theorem deadline_passed_during_sleep_still_returns:
  "polls 1 (clocked_query (running_until 1 (status_response ''SUCCEEDED'')) 299) (JStr ''q-1'') 300 0
     (idle (0, 0))
     = Some \<lparr>world = (1, 301),
             calls = [Api GetQueryExecution (JDict [(''QueryExecutionId'', JStr ''q-1'')]), Sleep 2],
             out = []\<rparr> \<and>
   fst (time_time (clocked_query (running_until 1 (status_response ''SUCCEEDED'')) 299) (0, 0)) = 0 \<and>
   fst (time_time (clocked_query (running_until 1 (status_response ''SUCCEEDED'')) 299) (1, 301)) - 0
     > real_of_int 300 \<and>
   wait_for_query (clocked_query (running_until 1 (status_response ''SUCCEEDED'')) 299) (JStr ''q-1'') 300
     (idle (0, 0))
     = Some (Inr (status_response ''SUCCEEDED''),
             \<lparr>world = (2, 600),
              calls = [Api GetQueryExecution (JDict [(''QueryExecutionId'', JStr ''q-1'')]), Sleep 2,
                       Api GetQueryExecution (JDict [(''QueryExecutionId'', JStr ''q-1'')])],
              out = []\<rparr>)"
  by (simp add: clock_eval)

text \<open>
  C5. With the bucket setting equal to \<open>YOUR_S3_BUCKET\<close>, \<open>main\<close> raises the configuration
  error after printing its two banner lines: no request has been issued and the world is
  as it was.
\<close>

theorem placeholder_bucket_fails_before_any_call:
  assumes "BUCKET cfg = ''YOUR_S3_BUCKET''"
  shows "\<exists>s'. main E cfg s = Some (Inl bucket_error, s') \<and> issued s s' = [] \<and> world s' = world s \<and>
           out s' = out s @
             [Print (''[INFO] Starting Athena pipeline in '' @ REGION cfg),
              Print (''[INFO] Bucket='' @ BUCKET cfg @ '', RAW=s3://'' @ BUCKET cfg @ ''/'' @
                     RAW_PREFIX cfg @ '', Output='' @ PROD_PREFIX cfg)]"
  using assms
  by (simp add: main_def main_queries_def and_then_def print_line_def issued_def Let_def)

theorem placeholder_bucket_fails_before_any_call_witness:
  "BUCKET (load_config Map.empty) = ''YOUR_S3_BUCKET'' \<and>
   (\<exists>s'. main (pipeline_stub 0 (Inr ''i-0'')) (load_config Map.empty) (idle 0)
            = Some (Inl bucket_error, s') \<and>
         issued (idle 0) s' = [] \<and> world s' = 0 \<and>
         out s' =
           [Print ''[INFO] Starting Athena pipeline in us-east-1'',
            Print ''[INFO] Bucket=YOUR_S3_BUCKET, RAW=s3://YOUR_S3_BUCKET/raw/, Output=output/prod/''])"
proof -
  have h: "BUCKET (load_config Map.empty) = ''YOUR_S3_BUCKET''"
    by (simp add: load_config_def getenv_or_def)
  from placeholder_bucket_fails_before_any_call
         [OF h, where E = "pipeline_stub 0 (Inr ''i-0'')" and s = "idle 0"]
  have "\<exists>s'. main (pipeline_stub 0 (Inr ''i-0'')) (load_config Map.empty) (idle 0)
            = Some (Inl bucket_error, s') \<and>
         issued (idle 0) s' = [] \<and> world s' = 0 \<and>
         out s' =
           [Print ''[INFO] Starting Athena pipeline in us-east-1'',
            Print ''[INFO] Bucket=YOUR_S3_BUCKET, RAW=s3://YOUR_S3_BUCKET/raw/, Output=output/prod/'']"
    by (simp add: load_config_def getenv_or_def getenv_default_def idle_def)
  with h show ?thesis by (intro conjI)
qed

lemma terminate_self_returns: "\<exists>s'. terminate_self E s = (Inr JNone, s')"
  by (auto simp: terminate_self_def terminate_self_try_def split: prod.splits sum.splits)

text \<open>
  C7. Once the queries and the relocation have succeeded, \<open>main\<close> returns normally whatever
  the self-termination does: when the metadata request raises, or when the terminate request
  raises, the exception is printed in a \<open>[WARN]\<close> line and \<open>main\<close> returns \<open>None\<close>;
  \<open>terminate_self\<close> itself never raises.
\<close>

theorem self_termination_failure_is_not_fatal:
  assumes "main_queries E cfg s = Some (Inr qid, s1)"
    and "relocate_result E cfg qid s1 = (Inr relocated, s2)"
    and "fetch_text E metadata_url 2 (print_line (Print (''[STEP] Terminating instance'' @ ellipsis)) s2)
           = (found, s3)"
  shows "(\<exists>s'. main E cfg s = Some (Inr JNone, s')) \<and>
         main E cfg s =
           (case found of
              Inl e \<Rightarrow>
                Some (Inr JNone,
                      print_line (PrintExn ''[WARN] Could not terminate instance automatically: '' e) s3)
            | Inr iid \<Rightarrow>
                (case call_api E TerminateInstances (instance_ids iid) s3 of
                   (Inl e, s4) \<Rightarrow>
                     Some (Inr JNone,
                           print_line (PrintExn ''[WARN] Could not terminate instance automatically: '' e) s4)
                 | (Inr terminated, s4) \<Rightarrow> Some (Inr JNone, s4))) \<and>
         (\<exists>s'. terminate_self E s = (Inr JNone, s'))"
proof -
  have m: "main E cfg s =
      Some (terminate_self E (print_line (Print (''[STEP] Terminating instance'' @ ellipsis)) s2))"
    using assms(1,2) by (simp add: main_def and_then_def)
  from terminate_self_returns obtain s' where
    "terminate_self E (print_line (Print (''[STEP] Terminating instance'' @ ellipsis)) s2) = (Inr JNone, s')"
    by blast
  with m have a: "\<exists>s'. main E cfg s = Some (Inr JNone, s')" by simp
  have b: "main E cfg s =
           (case found of
              Inl e \<Rightarrow>
                Some (Inr JNone,
                      print_line (PrintExn ''[WARN] Could not terminate instance automatically: '' e) s3)
            | Inr iid \<Rightarrow>
                (case call_api E TerminateInstances (instance_ids iid) s3 of
                   (Inl e, s4) \<Rightarrow>
                     Some (Inr JNone,
                           print_line (PrintExn ''[WARN] Could not terminate instance automatically: '' e) s4)
                 | (Inr terminated, s4) \<Rightarrow> Some (Inr JNone, s4)))"
    unfolding m using assms(3)
    by (auto simp: terminate_self_def terminate_self_try_def split: prod.splits sum.splits)
  from a b terminate_self_returns show ?thesis by blast
qed

lemmas run_eval =
  main_def main_queries_def relocate_result_def run_query_def and_then_def call_api_def
  pipeline_stub_def wait_for_query_def wait_loop.simps wait_poll_def state_of_query_def
  status_response_def read_clock_def read_utcnow_def print_line_def idle_def py_str_def
  copy_athena_csv_to_prod_def default_timeout_sec_def Let_def

lemma demo_fields:
  "BUCKET demo_config = ''demo-bucket''" "REGION demo_config = ''us-east-1''"
  "RAW_PREFIX demo_config = ''raw/''" "PROD_PREFIX demo_config = ''output/prod/''"
  "DATABASE demo_config = ''healthcare_db''"
  by (simp_all add: demo_config_def load_config_def getenv_or_def getenv_default_def)


theorem self_termination_failure_is_not_fatal_witness:
  "main_queries (pipeline_stub 0 (Inl metadata_timeout)) demo_config (idle 0) =
     Some (Inr (JStr ''q-1''),
       \<lparr>world = 6,
        calls = [Api StartQueryExecution (query_kwargs demo_config (CREATE_DB_SQL demo_config) None),
                 Api GetQueryExecution (poll_args (JStr ''q-1'')),
                 Api StartQueryExecution
                   (query_kwargs demo_config (CREATE_TABLE_SQL demo_config) (Some ''healthcare_db'')),
                 Api GetQueryExecution (poll_args (JStr ''q-1'')),
                 Api StartQueryExecution
                   (query_kwargs demo_config (STAGE3_SQL demo_config) (Some ''healthcare_db'')),
                 Api GetQueryExecution (poll_args (JStr ''q-1''))],
        out = [Print ''[INFO] Starting Athena pipeline in us-east-1'',
               Print ''[INFO] Bucket=demo-bucket, RAW=s3://demo-bucket/raw/, Output=output/prod/'',
               Print (''[STEP] Ensuring DB exists'' @ ellipsis),
               Print (''[STEP] Ensuring external table exists'' @ ellipsis),
               Print (''[STEP] Running Stage-3 query'' @ ellipsis),
               Print ''[OK] Query ID: q-1'']\<rparr>) \<and>
   fst (relocate_result (pipeline_stub 0 (Inl metadata_timeout)) demo_config (JStr ''q-1'')
          (snd (the (main_queries (pipeline_stub 0 (Inl metadata_timeout)) demo_config (idle 0)))))
     = Inr JNone \<and>
   map_option (\<lambda>(r, s'). (r, world s', filter (\<lambda>c. \<not> is_poll c) (calls s'), drop 6 (out s')))
     (main (pipeline_stub 0 (Inl metadata_timeout)) demo_config (idle 0)) =
     Some (Inr JNone, 7,
       [Api StartQueryExecution (query_kwargs demo_config (CREATE_DB_SQL demo_config) None),
        Api StartQueryExecution
          (query_kwargs demo_config (CREATE_TABLE_SQL demo_config) (Some ''healthcare_db'')),
        Api StartQueryExecution
          (query_kwargs demo_config (STAGE3_SQL demo_config) (Some ''healthcare_db'')),
        Api CopyObject
          (JDict [(''Bucket'', JStr ''demo-bucket''),
                  (''CopySource'', JDict [(''Bucket'', JStr ''demo-bucket''),
                                          (''Key'', JStr ''athena-results/q-1.csv'')]),
                  (''Key'', JStr ''output/prod/state_counts_19700101_000000.csv'')]),
        UrlOpen metadata_url 2],
       [Print (''[STEP] Copying results to prod'' @ ellipsis),
        Print ''[OK] Prod CSV: s3://demo-bucket/output/prod/state_counts_19700101_000000.csv'',
        Print (''[STEP] Terminating instance'' @ ellipsis),
        PrintExn ''[WARN] Could not terminate instance automatically: '' metadata_timeout])"
proof -
  let ?E = "pipeline_stub 0 (Inl metadata_timeout)"
  let ?s1 = "\<lparr>world = 6 :: nat,
        calls = [Api StartQueryExecution (query_kwargs demo_config (CREATE_DB_SQL demo_config) None),
                 Api GetQueryExecution (poll_args (JStr ''q-1'')),
                 Api StartQueryExecution
                   (query_kwargs demo_config (CREATE_TABLE_SQL demo_config) (Some ''healthcare_db'')),
                 Api GetQueryExecution (poll_args (JStr ''q-1'')),
                 Api StartQueryExecution
                   (query_kwargs demo_config (STAGE3_SQL demo_config) (Some ''healthcare_db'')),
                 Api GetQueryExecution (poll_args (JStr ''q-1''))],
        out = [Print ''[INFO] Starting Athena pipeline in us-east-1'',
               Print ''[INFO] Bucket=demo-bucket, RAW=s3://demo-bucket/raw/, Output=output/prod/'',
               Print (''[STEP] Ensuring DB exists'' @ ellipsis),
               Print (''[STEP] Ensuring external table exists'' @ ellipsis),
               Print (''[STEP] Running Stage-3 query'' @ ellipsis),
               Print ''[OK] Query ID: q-1'']\<rparr>"
  have h1: "main_queries ?E demo_config (idle 0) = Some (Inr (JStr ''q-1''), ?s1)"
    by (simp add: run_eval demo_fields)
  obtain r2 s2 where h2': "relocate_result ?E demo_config (JStr ''q-1'') ?s1 = (r2, s2)"
    by (cases "relocate_result ?E demo_config (JStr ''q-1'') ?s1")
  then have r2: "r2 = Inr JNone"
    and s2: "s2 = \<lparr>world = 7,
       calls = calls ?s1 @
         [Api CopyObject
          (JDict [(''Bucket'', JStr ''demo-bucket''),
                  (''CopySource'', JDict [(''Bucket'', JStr ''demo-bucket''),
                                          (''Key'', JStr ''athena-results/q-1.csv'')]),
                  (''Key'', JStr ''output/prod/state_counts_19700101_000000.csv'')])],
       out = out ?s1 @
         [Print (''[STEP] Copying results to prod'' @ ellipsis),
          Print ''[OK] Prod CSV: s3://demo-bucket/output/prod/state_counts_19700101_000000.csv'']\<rparr>"
    by (auto simp: run_eval demo_fields copy_kwargs_def copy_src_key_def dest_key_of_def
        strftime_stamp_def four_digits_def two_digits_def digit_def epoch_def)
  from h2' r2 have h2: "relocate_result ?E demo_config (JStr ''q-1'') ?s1 = (Inr JNone, s2)" by simp
  obtain s3 where h3: "fetch_text ?E metadata_url 2
      (print_line (Print (''[STEP] Terminating instance'' @ ellipsis)) s2) = (Inl metadata_timeout, s3)"
    and s3: "s3 = \<lparr>world = 7, calls = calls s2 @ [UrlOpen metadata_url 2],
                    out = out s2 @ [Print (''[STEP] Terminating instance'' @ ellipsis)]\<rparr>"
    by (simp add: fetch_text_def pipeline_stub_def print_line_def s2)
  note t = self_termination_failure_is_not_fatal[OF h1 h2 h3, THEN conjunct2, THEN conjunct1]
  have m: "main ?E demo_config (idle 0) =
      Some (Inr JNone, print_line (PrintExn ''[WARN] Could not terminate instance automatically: '' metadata_timeout) s3)"
    using t by simp
  have a: "fst (relocate_result ?E demo_config (JStr ''q-1'') (snd (the (main_queries ?E demo_config (idle 0)))))
     = Inr JNone"
    using h1 h2 by simp
  show ?thesis
    apply (intro conjI)
      apply (rule h1)
     apply (rule a)
    apply (simp add: m s3 s2 print_line_def)
    done
qed

lemma is_digit_digit: "n < 10 \<Longrightarrow> is_digit (digit n)"
  using nth_mem[of n "''0123456789''"] by (simp add: is_digit_def digit_def)

lemma stamp_shape_strftime: "stamp_shape (strftime_stamp ts)"
  by (simp add: stamp_shape_def strftime_stamp_def four_digits_def two_digits_def is_digit_digit)






lemma digit_value_table: "map (digit_value \<circ> digit) [0..<10] = [0..<10]"
  by (simp add: digit_value_def digit_def upt_rec numeral_eq_Suc)

lemma digit_value_digit: "n < 10 \<Longrightarrow> digit_value (digit n) = n"
proof -
  assume a: "n < 10"
  then have "map (digit_value \<circ> digit) [0..<10] ! n = (digit_value \<circ> digit) ([0..<10] ! n)"
    by (intro nth_map) simp
  with a show ?thesis by (simp add: digit_value_table)
qed

lemma decimal_two_digits: "n < 100 \<Longrightarrow> decimal (two_digits n) = n"
  by (simp add: decimal_def two_digits_def digit_value_digit)

lemma decimal_four_digits:
  assumes "n < 10000"
  shows "decimal (four_digits n) = n"
proof -
  have d100: "n div 100 = n div 10 div 10" and d1000: "n div 1000 = n div 10 div 10 div 10"
    by (simp_all add: div_mult2_eq[symmetric])
  from assms have top: "n div 1000 mod 10 = n div 1000" by simp
  have e1: "n = 10 * (n div 10) + n mod 10" by simp
  have e2: "n div 10 = 10 * (n div 100) + n div 10 mod 10" unfolding d100 by simp
  have e3: "n div 100 = 10 * (n div 1000) + n div 100 mod 10" unfolding d100 d1000 by simp
  have "decimal (four_digits n) =
      10 * (10 * (10 * (n div 1000 mod 10) + n div 100 mod 10) + n div 10 mod 10) + n mod 10"
    by (simp add: decimal_def four_digits_def digit_value_digit)
  also have "\<dots> = 10 * (10 * (n div 100) + n div 10 mod 10) + n mod 10"
    unfolding top using e3 by simp
  also have "\<dots> = 10 * (n div 10) + n mod 10" using e2 by simp
  also have "\<dots> = n" by simp
  finally show ?thesis .
qed


lemma stamp_fields:
  "take 4 (strftime_stamp ts) = four_digits (year ts)"
  "take 2 (drop 4 (strftime_stamp ts)) = two_digits (month ts)"
  "take 2 (drop 6 (strftime_stamp ts)) = two_digits (day ts)"
  "strftime_stamp ts ! 8 = CHR ''_''"
  "take 2 (drop 9 (strftime_stamp ts)) = two_digits (hour ts)"
  "take 2 (drop 11 (strftime_stamp ts)) = two_digits (minute ts)"
  "take 2 (drop 13 (strftime_stamp ts)) = two_digits (second ts)"
  "length (strftime_stamp ts) = 15"
  by (simp_all add: strftime_stamp_def four_digits_def two_digits_def)


lemma abc123_key: "copy_src_key E cfg (JStr ''abc123'') = ''athena-results/abc123.csv''"
  by (simp add: copy_src_key_def py_str_def)

text \<open>
  C6, amended. For the handle \<open>abc123\<close> the source key of the copy is
  \<open>athena-results/abc123.csv\<close>. For every run the relocation reads the UTC clock and sends
  one copy request, and nothing else, to the storage service, so the source object stays;
  the destination key of that request is the configured production prefix (which is
  \<open>output/prod/\<close> when \<open>PROD_PREFIX\<close> is not set), then \<open>state_counts_\<close>, then the
  timestamp, then \<open>.csv\<close>. The timestamp is fifteen characters: the four digits of the
  year, the two of the month, the two of the day, an underscore, the two digits of the
  hour, of the minute and of the second of that clock reading.
\<close>

theorem relocation_keys:
  assumes "utcnow E (world s) = (ts, w1)"
    and "year ts < 10000" and "month ts < 100" and "day ts < 100"
    and "hour ts < 100" and "minute ts < 100" and "second ts < 100"
    and "api E CopyObject
           (JDict [(''Bucket'', JStr (BUCKET cfg)),
                   (''CopySource'', JDict [(''Bucket'', JStr (BUCKET cfg)),
                                           (''Key'', JStr (copy_src_key E cfg qid))]),
                   (''Key'', JStr (PROD_PREFIX cfg @ ''state_counts_'' @ strftime_stamp ts @ ''.csv''))])
           w1 = (copied, w2)"
  shows "copy_src_key E cfg (JStr ''abc123'') = ''athena-results/abc123.csv'' \<and>
         (\<exists>r s'. relocate_result E cfg qid s = (r, s') \<and> world s' = w2 \<and>
            calls s' = calls s @
              [Api CopyObject
                 (JDict [(''Bucket'', JStr (BUCKET cfg)),
                         (''CopySource'', JDict [(''Bucket'', JStr (BUCKET cfg)),
                                                 (''Key'', JStr (copy_src_key E cfg qid))]),
                         (''Key'', JStr (PROD_PREFIX cfg @ ''state_counts_'' @ strftime_stamp ts @ ''.csv''))])] \<and>
            (case copied of Inl e \<Rightarrow> r = Inl e | Inr x \<Rightarrow> r = Inr JNone)) \<and>
         stamp_shape (strftime_stamp ts) \<and>
         decimal (take 4 (strftime_stamp ts)) = year ts \<and>
         decimal (take 2 (drop 4 (strftime_stamp ts))) = month ts \<and>
         decimal (take 2 (drop 6 (strftime_stamp ts))) = day ts \<and>
         strftime_stamp ts ! 8 = CHR ''_'' \<and>
         decimal (take 2 (drop 9 (strftime_stamp ts))) = hour ts \<and>
         decimal (take 2 (drop 11 (strftime_stamp ts))) = minute ts \<and>
         decimal (take 2 (drop 13 (strftime_stamp ts))) = second ts \<and>
         (environ ''PROD_PREFIX'' = None \<longrightarrow> PROD_PREFIX (load_config environ) = ''output/prod/'')"
proof -
  have a: "\<exists>r s'. relocate_result E cfg qid s = (r, s') \<and> world s' = w2 \<and>
            calls s' = calls s @
              [Api CopyObject
                 (JDict [(''Bucket'', JStr (BUCKET cfg)),
                         (''CopySource'', JDict [(''Bucket'', JStr (BUCKET cfg)),
                                                 (''Key'', JStr (copy_src_key E cfg qid))]),
                         (''Key'', JStr (PROD_PREFIX cfg @ ''state_counts_'' @ strftime_stamp ts @ ''.csv''))])] \<and>
            (case copied of Inl e \<Rightarrow> r = Inl e | Inr x \<Rightarrow> r = Inr JNone)"
    using assms(1,8)
    by (cases copied)
       (simp_all add: relocate_result_def read_utcnow_def copy_athena_csv_to_prod_def call_api_def
          print_line_def copy_kwargs_def dest_key_of_def)
  have b: "decimal (take 4 (strftime_stamp ts)) = year ts"
          "decimal (take 2 (drop 4 (strftime_stamp ts))) = month ts"
          "decimal (take 2 (drop 6 (strftime_stamp ts))) = day ts"
          "decimal (take 2 (drop 9 (strftime_stamp ts))) = hour ts"
          "decimal (take 2 (drop 11 (strftime_stamp ts))) = minute ts"
          "decimal (take 2 (drop 13 (strftime_stamp ts))) = second ts"
    using assms(2-7) by (simp_all only: stamp_fields decimal_two_digits decimal_four_digits)
  have c: "environ ''PROD_PREFIX'' = None \<longrightarrow> PROD_PREFIX (load_config environ) = ''output/prod/''"
    by (simp add: load_config_def getenv_default_def)
  from a b c abc123_key stamp_shape_strftime stamp_fields(4) show ?thesis by (intro conjI)
qed


lemma launch_stamp: "strftime_stamp launch_day = ''20240309_140507''"
  by (simp add: strftime_stamp_def four_digits_def two_digits_def digit_def launch_day_def)

theorem relocation_keys_witness:
  "utcnow (dated_stub launch_day) (world (idle 0)) = (launch_day, 0) \<and>
   year launch_day < 10000 \<and> month launch_day < 100 \<and> day launch_day < 100 \<and>
   hour launch_day < 100 \<and> minute launch_day < 100 \<and> second launch_day < 100 \<and>
   api (dated_stub launch_day) CopyObject
     (JDict [(''Bucket'', JStr ''demo-bucket''),
             (''CopySource'', JDict [(''Bucket'', JStr ''demo-bucket''),
                                     (''Key'', JStr ''athena-results/abc123.csv'')]),
             (''Key'', JStr ''output/prod/state_counts_20240309_140507.csv'')]) 0
     = (Inr (JDict []), 1) \<and>
   [''BUCKET'' \<mapsto> ''demo-bucket''] ''PROD_PREFIX'' = None \<and>
   PROD_PREFIX (load_config [''BUCKET'' \<mapsto> ''demo-bucket'']) = ''output/prod/'' \<and>
   fst (relocate_result (dated_stub launch_day) demo_config (JStr ''abc123'') (idle 0)) = Inr JNone \<and>
   world (snd (relocate_result (dated_stub launch_day) demo_config (JStr ''abc123'') (idle 0))) = 1 \<and>
   calls (snd (relocate_result (dated_stub launch_day) demo_config (JStr ''abc123'') (idle 0))) =
     [Api CopyObject
        (JDict [(''Bucket'', JStr ''demo-bucket''),
                (''CopySource'', JDict [(''Bucket'', JStr ''demo-bucket''),
                                        (''Key'', JStr ''athena-results/abc123.csv'')]),
                (''Key'', JStr ''output/prod/state_counts_20240309_140507.csv'')])] \<and>
   decimal (take 2 (drop 4 ''20240309_140507'')) = 3 \<and>
   decimal (take 2 (drop 6 ''20240309_140507'')) = 9 \<and>
   decimal (take 2 (drop 9 ''20240309_140507'')) = 14"
proof -
  let ?E = "dated_stub launch_day"
  let ?args = "JDict [(''Bucket'', JStr ''demo-bucket''),
             (''CopySource'', JDict [(''Bucket'', JStr ''demo-bucket''),
                                     (''Key'', JStr ''athena-results/abc123.csv'')]),
             (''Key'', JStr ''output/prod/state_counts_20240309_140507.csv'')]"
  have h1: "utcnow ?E (world (idle 0)) = (launch_day, 0)"
    by (simp add: dated_stub_def idle_def)
  have h2: "year launch_day < 10000" "month launch_day < 100" "day launch_day < 100"
    "hour launch_day < 100" "minute launch_day < 100" "second launch_day < 100"
    by (simp_all add: launch_day_def)
  have key: "copy_src_key ?E demo_config (JStr ''abc123'') = ''athena-results/abc123.csv''"
    by (simp add: copy_src_key_def py_str_def)
  have h8': "api ?E CopyObject ?args 0 = (Inr (JDict []), 1)"
    by (simp add: dated_stub_def pipeline_stub_def)
  have h8: "api ?E CopyObject
           (JDict [(''Bucket'', JStr (BUCKET demo_config)),
                   (''CopySource'', JDict [(''Bucket'', JStr (BUCKET demo_config)),
                                           (''Key'', JStr (copy_src_key ?E demo_config (JStr ''abc123'')))]),
                   (''Key'', JStr (PROD_PREFIX demo_config @ ''state_counts_'' @ strftime_stamp launch_day @ ''.csv''))])
           0 = (Inr (JDict []), 1)"
    using h8' by (simp add: demo_fields key launch_stamp)
  have h9: "[''BUCKET'' \<mapsto> ''demo-bucket''] ''PROD_PREFIX'' = None" by simp
  note t = relocation_keys[OF h1 h2 h8, where environ = "[''BUCKET'' \<mapsto> ''demo-bucket'']"]
  from t h9 have c1: "PROD_PREFIX (load_config [''BUCKET'' \<mapsto> ''demo-bucket'']) = ''output/prod/''"
    by blast
  from t[THEN conjunct2, THEN conjunct1]
  have c234: "fst (relocate_result ?E demo_config (JStr ''abc123'') (idle 0)) = Inr JNone \<and>
      world (snd (relocate_result ?E demo_config (JStr ''abc123'') (idle 0))) = 1 \<and>
      calls (snd (relocate_result ?E demo_config (JStr ''abc123'') (idle 0))) = [Api CopyObject ?args]"
    by (auto simp: demo_fields key launch_stamp idle_def)
  then have c2: "fst (relocate_result ?E demo_config (JStr ''abc123'') (idle 0)) = Inr JNone"
    and c3: "world (snd (relocate_result ?E demo_config (JStr ''abc123'') (idle 0))) = 1"
    and c4: "calls (snd (relocate_result ?E demo_config (JStr ''abc123'') (idle 0))) = [Api CopyObject ?args]"
    by simp_all
  from t have d: "decimal (take 2 (drop 4 (strftime_stamp launch_day))) = month launch_day"
    "decimal (take 2 (drop 6 (strftime_stamp launch_day))) = day launch_day"
    "decimal (take 2 (drop 9 (strftime_stamp launch_day))) = hour launch_day"
    by blast+
  then have c5: "decimal (take 2 (drop 4 ''20240309_140507'')) = 3"
    "decimal (take 2 (drop 6 ''20240309_140507'')) = 9"
    "decimal (take 2 (drop 9 ''20240309_140507'')) = 14"
    unfolding launch_stamp by (simp_all add: launch_day_def)
  from h1 h2 h8' h9 c1 c2 c3 c4 c5 show ?thesis by (intro conjI)
qed

text \<open>
  C6 as stated fails for a run with \<open>PROD_PREFIX\<close> set: the destination key then starts with
  that prefix, not with \<open>output/prod/\<close>.
\<close>

theorem prod_prefix_override_moves_destination:
  "PROD_PREFIX archive_config = ''archive/'' \<and>
   map_option (\<lambda>(r, s'). (r, filter is_copy (calls s')))
     (main (dated_stub launch_day) archive_config (idle 0)) =
     Some (Inr JNone,
       [Api CopyObject
          (JDict [(''Bucket'', JStr ''demo-bucket''),
                  (''CopySource'', JDict [(''Bucket'', JStr ''demo-bucket''),
                                          (''Key'', JStr ''athena-results/q-1.csv'')]),
                  (''Key'', JStr ''archive/state_counts_20240309_140507.csv'')])]) \<and>
   \<not> prefix ''output/prod/'' ''archive/state_counts_20240309_140507.csv''"
  by (simp add: run_eval dated_stub_def archive_config_def load_config_def getenv_or_def
      getenv_default_def copy_kwargs_def copy_src_key_def dest_key_of_def launch_stamp
      terminate_self_def terminate_self_try_def fetch_text_def instance_ids_def)

end
